theory Spec2Isabelle
  imports Complex_Main "HOL-Library.Product_Lexorder" "HOL-Library.Char_ord"
    "HOL-Library.List_Lexorder"
begin

section \<open>Schema\<close>

text \<open>
  The four tables of the first migration. A \<open>UUID\<close> is a natural number, a
  \<open>TIMESTAMPTZ\<close> an integer number of microseconds, a \<open>TEXT\<close> a string. A column
  declared without \<open>NOT NULL\<close> is an option, \<open>None\<close> being SQL's \<open>NULL\<close>. The columns
  of each table carry a prefix (\<open>r_\<close>, \<open>c_\<close>, \<open>i_\<close>, \<open>ur_\<close>), because the tables share
  the column names \<open>id\<close>, \<open>name\<close>, \<open>created_at\<close>.
  A \<open>numeric\<close> value is a rational number, \<open>NaN\<close> or an infinity; what the column
  type \<open>DECIMAL(10, 2)\<close> does to an assigned value is \<open>numeric_10_2\<close> below. The
  column \<open>price\<close> is an option although it is \<open>NOT NULL\<close>, because the client can send
  \<open>null\<close> for it: the statements check the constraint.
\<close>

type_synonym uuid = nat
type_synonym timestamptz = int

datatype numeric = Number rat | NaN | Infinity | Minus_Infinity

datatype app_role = admin | manager | user

record restaurants_row =
  r_id :: uuid
  r_name :: string
  r_slug :: string
  r_description :: "string option"
  r_logo_url :: "string option"
  r_banner_image_url :: "string option"
  r_theme_color :: "string option"
  r_background_color :: "string option"
  r_contact_phone :: "string option"
  r_contact_email :: "string option"
  r_address :: "string option"
  r_is_active :: "bool option"
  r_created_at :: "timestamptz option"
  r_updated_at :: "timestamptz option"

record menu_categories_row =
  c_id :: uuid
  c_restaurant_id :: uuid
  c_name :: string
  c_description :: "string option"
  c_display_order :: "int option"
  c_is_active :: "bool option"
  c_created_at :: "timestamptz option"
  c_updated_at :: "timestamptz option"

record menu_items_row =
  i_id :: uuid
  i_category_id :: uuid
  i_name :: string
  i_description :: "string option"
  i_price :: "numeric option"
  i_image_url :: "string option"
  i_is_vegetarian :: "bool option"
  i_is_vegan :: "bool option"
  i_is_spicy :: "bool option"
  i_is_available :: "bool option"
  i_display_order :: "int option"
  i_created_at :: "timestamptz option"
  i_updated_at :: "timestamptz option"

record user_roles_row =
  ur_id :: uuid
  ur_user_id :: uuid
  ur_role :: app_role
  ur_restaurant_id :: "uuid option"
  ur_created_at :: "timestamptz option"

text \<open>
  The state of the store: the rows of the four tables, and the ids of \<open>auth.users\<close>,
  the table of the authentication service that \<open>user_roles.user_id\<close> references.
\<close>

record db =
  restaurants :: "restaurants_row list"
  menu_categories :: "menu_categories_row list"
  menu_items :: "menu_items_row list"
  user_roles :: "user_roles_row list"
  auth_users :: "uuid list"

datatype error =
    row_security_violation
  | unique_violation
  | foreign_key_violation
  | not_null_violation
  | numeric_value_out_of_range
  | PGRST116

section \<open>SQL's three-valued logic\<close>

definition sql_eq :: "'a option \<Rightarrow> 'a option \<Rightarrow> bool option" where
  "sql_eq a b = (case a of None \<Rightarrow> None
                 | Some x \<Rightarrow> (case b of None \<Rightarrow> None | Some y \<Rightarrow> Some (x = y)))"

definition sql_and :: "bool option \<Rightarrow> bool option \<Rightarrow> bool option" where
  "sql_and a b = (if a = Some False \<or> b = Some False then Some False
                  else if a = Some True \<and> b = Some True then Some True else None)"

definition sql_or :: "bool option \<Rightarrow> bool option \<Rightarrow> bool option" where
  "sql_or a b = (if a = Some True \<or> b = Some True then Some True
                 else if a = Some False \<and> b = Some False then Some False else None)"

text \<open>A \<open>WHERE\<close> clause, a \<open>USING\<close> and a \<open>WITH CHECK\<close> keep a row only when the
  condition is true: false and \<open>NULL\<close> both drop it.\<close>

definition sql_true :: "bool option \<Rightarrow> bool" where
  "sql_true b = (b = Some True)"

section \<open>The caller and the role check\<close>

text \<open>
  A request reaches the store as one of two database roles: \<open>anon\<close>, with
  \<open>auth.uid()\<close> \<open>NULL\<close>, or \<open>authenticated\<close>, with \<open>auth.uid()\<close> the user's id. The
  caller is therefore a \<open>uuid option\<close>.
\<close>

datatype pg_role = anon | authenticated

definition auth_role :: "uuid option \<Rightarrow> pg_role" where
  "auth_role caller = (case caller of None \<Rightarrow> anon | Some u \<Rightarrow> authenticated)"

text \<open>
  \<open>has_role\<close> is \<open>SECURITY DEFINER\<close>: its body runs as the owner of the function, who
  owns the tables too, and row security is not applied to a table's owner (no table
  has \<open>FORCE ROW LEVEL SECURITY\<close>). So \<open>FROM public.user_roles\<close> ranges over every row
  of the table, whoever the caller is: the function takes the table and no caller.
\<close>

definition has_role :: "db \<Rightarrow> uuid option \<Rightarrow> app_role \<Rightarrow> bool" where
  "has_role d user_id' role' =
     list_ex (\<lambda>g. sql_true (sql_and (sql_eq (Some (ur_user_id g)) user_id')
                                      (sql_eq (Some (ur_role g)) (Some role'))))
       (user_roles d)"

section \<open>Row-level security\<close>

datatype command = SELECT | INSERT | UPDATE | DELETE

datatype polcmd = FOR_ALL | FOR command

text \<open>
  A policy: its name, the command it is for, the role it is granted \<open>TO\<close> (\<open>None\<close>
  when the clause is absent, which is \<open>PUBLIC\<close>), its \<open>USING\<close> expression and its
  \<open>WITH CHECK\<close> expression when it has one. An expression reads the store (through
  \<open>has_role\<close>), \<open>auth.uid()\<close> and the row.
\<close>

type_synonym 'row qual = "db \<Rightarrow> uuid option \<Rightarrow> 'row \<Rightarrow> bool option"

record 'row policy =
  polname :: string
  polcmd :: polcmd
  polroles :: "pg_role option"
  polqual :: "'row qual"
  polwithcheck :: "'row qual option"

text \<open>
  The four "Admins can manage ..." policies differ in their name and table only:
  \<open>FOR ALL TO authenticated\<close>, with \<open>has_role(auth.uid(), 'admin')\<close> as \<open>USING\<close> and as
  \<open>WITH CHECK\<close>.
\<close>

definition admins_can_manage :: "string \<Rightarrow> 'row policy" where
  "admins_can_manage n =
     \<lparr>polname = n, polcmd = FOR_ALL, polroles = Some authenticated,
      polqual = (\<lambda>d uid row. Some (has_role d uid admin)),
      polwithcheck = Some (\<lambda>d uid row. Some (has_role d uid admin))\<rparr>"

definition restaurants_policies :: "restaurants_row policy list" where
  "restaurants_policies =
     [\<lparr>polname = ''Anyone can view active restaurants'', polcmd = FOR SELECT,
       polroles = None,
       polqual = (\<lambda>d uid row. sql_eq (r_is_active row) (Some True)),
       polwithcheck = None\<rparr>,
      admins_can_manage ''Admins can manage restaurants'']"

definition menu_categories_policies :: "menu_categories_row policy list" where
  "menu_categories_policies =
     [\<lparr>polname = ''Anyone can view active categories'', polcmd = FOR SELECT,
       polroles = None,
       polqual = (\<lambda>d uid row. sql_eq (c_is_active row) (Some True)),
       polwithcheck = None\<rparr>,
      admins_can_manage ''Admins can manage categories'']"

definition menu_items_policies :: "menu_items_row policy list" where
  "menu_items_policies =
     [\<lparr>polname = ''Anyone can view available items'', polcmd = FOR SELECT,
       polroles = None,
       polqual = (\<lambda>d uid row. sql_eq (i_is_available row) (Some True)),
       polwithcheck = None\<rparr>,
      admins_can_manage ''Admins can manage items'']"

text \<open>The policies of \<open>user_roles\<close> as the first migration creates them.\<close>

definition user_roles_policies_initial :: "user_roles_row policy list" where
  "user_roles_policies_initial =
     [\<lparr>polname = ''Users can view their own roles'', polcmd = FOR SELECT,
       polroles = Some authenticated,
       polqual = (\<lambda>d uid row. sql_eq (Some (ur_user_id row)) uid),
       polwithcheck = None\<rparr>,
      admins_can_manage ''Admins can manage all roles'']"

definition drop_policy_if_exists :: "string \<Rightarrow> 'row policy list \<Rightarrow> 'row policy list" where
  "drop_policy_if_exists n ps = filter (\<lambda>p. polname p \<noteq> n) ps"

definition create_policy :: "'row policy \<Rightarrow> 'row policy list \<Rightarrow> 'row policy list" where
  "create_policy p ps = ps @ [p]"

text \<open>The migration of 2025-12-06 replaces the users' \<open>SELECT\<close> policy.\<close>

definition user_roles_policies :: "user_roles_row policy list" where
  "user_roles_policies =
     create_policy
       \<lparr>polname = ''Users can only view their own roles'', polcmd = FOR SELECT,
        polroles = Some authenticated,
        polqual = (\<lambda>d uid row. sql_or (sql_eq (Some (ur_user_id row)) uid)
                                         (Some (has_role d uid admin))),
        polwithcheck = None\<rparr>
       (drop_policy_if_exists ''Users can view their own roles''
          user_roles_policies_initial)"

text \<open>
  Row security is enabled on the four tables, and every policy is permissive. A
  policy applies to a command when it is \<open>FOR ALL\<close> or for that command, and to a
  caller when it is granted to \<open>PUBLIC\<close> or to the caller's role. An existing row
  passes when the \<open>USING\<close> of some applicable policy is true on it; a new row passes
  when the \<open>WITH CHECK\<close> of some applicable policy is true on it, the \<open>USING\<close>
  expression standing in for a missing \<open>WITH CHECK\<close>. With no applicable policy
  nothing passes.
\<close>

definition applies :: "'row policy \<Rightarrow> command \<Rightarrow> uuid option \<Rightarrow> bool" where
  "applies p cmd caller =
     ((polcmd p = FOR_ALL \<or> polcmd p = FOR cmd) \<and>
      (case polroles p of None \<Rightarrow> True | Some r \<Rightarrow> r = auth_role caller))"

definition rls_using :: "'row policy list \<Rightarrow> command \<Rightarrow> db \<Rightarrow> uuid option \<Rightarrow> 'row \<Rightarrow> bool" where
  "rls_using ps cmd d caller row =
     list_ex (\<lambda>p. applies p cmd caller \<and> sql_true (polqual p d caller row)) ps"

definition rls_with_check :: "'row policy list \<Rightarrow> command \<Rightarrow> db \<Rightarrow> uuid option \<Rightarrow> 'row \<Rightarrow> bool" where
  "rls_with_check ps cmd d caller row =
     list_ex (\<lambda>p. applies p cmd caller \<and>
                  sql_true ((case polwithcheck p of None \<Rightarrow> polqual p | Some w \<Rightarrow> w)
                              d caller row)) ps"

section \<open>Reading through row security\<close>

definition select_restaurants :: "db \<Rightarrow> uuid option \<Rightarrow> restaurants_row list" where
  "select_restaurants d caller =
     filter (rls_using restaurants_policies SELECT d caller) (restaurants d)"

definition select_menu_categories :: "db \<Rightarrow> uuid option \<Rightarrow> menu_categories_row list" where
  "select_menu_categories d caller =
     filter (rls_using menu_categories_policies SELECT d caller) (menu_categories d)"

definition select_menu_items :: "db \<Rightarrow> uuid option \<Rightarrow> menu_items_row list" where
  "select_menu_items d caller =
     filter (rls_using menu_items_policies SELECT d caller) (menu_items d)"

definition select_user_roles :: "db \<Rightarrow> uuid option \<Rightarrow> user_roles_row list" where
  "select_user_roles d caller =
     filter (rls_using user_roles_policies SELECT d caller) (user_roles d)"

section \<open>Column types, triggers and referential actions\<close>

text \<open>
  Assigning to a \<open>DECIMAL(10, 2)\<close> column rounds a number to two decimals, ties away
  from zero, and fails when the rounded value has more than eight digits before the
  point. \<open>NaN\<close> is stored as it is, whatever the precision and scale; an infinity is
  refused. \<open>NULL\<close> stays \<open>NULL\<close>. The column has no \<open>CHECK\<close> constraint.
\<close>

definition numeric_10_2 :: "numeric \<Rightarrow> error + numeric" where
  "numeric_10_2 v =
     (case v of
        Number x \<Rightarrow>
          (let n = (if 0 \<le> x then \<lfloor>x * 100 + 1 / 2\<rfloor> else - \<lfloor>- x * 100 + 1 / 2\<rfloor>)
           in if 10 ^ 10 \<le> \<bar>n\<bar> then Inl numeric_value_out_of_range
              else Inr (Number (of_int n / 100)))
      | NaN \<Rightarrow> Inr NaN
      | Infinity \<Rightarrow> Inl numeric_value_out_of_range
      | Minus_Infinity \<Rightarrow> Inl numeric_value_out_of_range)"

definition assign_price :: "numeric option \<Rightarrow> error + numeric option" where
  "assign_price v =
     (case v of
        None \<Rightarrow> Inr None
      | Some x \<Rightarrow> (case numeric_10_2 x of Inl e \<Rightarrow> Inl e | Inr y \<Rightarrow> Inr (Some y)))"

text \<open>
  The trigger function \<open>handle_updated_at\<close> is shared by the three \<open>BEFORE UPDATE\<close>
  triggers; it takes the update function of the table's \<open>updated_at\<close> column, and
  \<open>now()\<close> as a parameter.
\<close>

definition handle_updated_at ::
  "((timestamptz option \<Rightarrow> timestamptz option) \<Rightarrow> 'row \<Rightarrow> 'row) \<Rightarrow> timestamptz \<Rightarrow> 'row \<Rightarrow> 'row" where
  "handle_updated_at updated_at_update now NEW = updated_at_update (\<lambda>_. Some now) NEW"

definition set_restaurants_updated_at :: "timestamptz \<Rightarrow> restaurants_row \<Rightarrow> restaurants_row" where
  "set_restaurants_updated_at = handle_updated_at r_updated_at_update"

definition set_menu_categories_updated_at ::
  "timestamptz \<Rightarrow> menu_categories_row \<Rightarrow> menu_categories_row" where
  "set_menu_categories_updated_at = handle_updated_at c_updated_at_update"

definition set_menu_items_updated_at :: "timestamptz \<Rightarrow> menu_items_row \<Rightarrow> menu_items_row" where
  "set_menu_items_updated_at = handle_updated_at i_updated_at_update"

text \<open>
  \<open>ON DELETE CASCADE\<close>: the rows that reference a deleted row go with it, inside the
  same statement. A \<open>NULL\<close> reference matches no row. The referential actions run with
  the owner's rights, so row security does not filter them.
\<close>

definition on_delete_menu_categories :: "menu_categories_row list \<Rightarrow> db \<Rightarrow> db" where
  "on_delete_menu_categories gone d =
     d\<lparr>menu_items :=
         filter (\<lambda>i. i_category_id i \<notin> set (map c_id gone)) (menu_items d)\<rparr>"

definition on_delete_restaurants :: "restaurants_row list \<Rightarrow> db \<Rightarrow> db" where
  "on_delete_restaurants gone d =
     (let rids = set (map r_id gone);
          cats_gone = filter (\<lambda>c. c_restaurant_id c \<in> rids) (menu_categories d)
      in on_delete_menu_categories cats_gone
           (d\<lparr>menu_categories :=
                 filter (\<lambda>c. c_restaurant_id c \<notin> rids) (menu_categories d),
              user_roles :=
                 filter (\<lambda>g. case ur_restaurant_id g of None \<Rightarrow> True
                             | Some r \<Rightarrow> r \<notin> rids) (user_roles d)\<rparr>))"

section \<open>Statements\<close>

text \<open>
  \<open>INSERT\<close> of one complete row (a column the statement leaves out has its default
  filled in by whoever builds the row; see \<open>handleSubmit\<close>). The new row must pass the
  \<open>WITH CHECK\<close> of a policy, evaluated on the state before the statement; then come
  \<open>NOT NULL\<close>, the primary key, the \<open>UNIQUE\<close> constraints and the foreign keys.
\<close>

definition insert_restaurants :: "uuid option \<Rightarrow> restaurants_row \<Rightarrow> db \<Rightarrow> error + db" where
  "insert_restaurants caller new d =
     (if \<not> rls_with_check restaurants_policies INSERT d caller new
      then Inl row_security_violation
      else if r_id new \<in> set (map r_id (restaurants d)) \<or>
              r_slug new \<in> set (map r_slug (restaurants d))
      then Inl unique_violation
      else Inr (d\<lparr>restaurants := restaurants d @ [new]\<rparr>))"

definition insert_menu_categories ::
  "uuid option \<Rightarrow> menu_categories_row \<Rightarrow> db \<Rightarrow> error + db" where
  "insert_menu_categories caller new d =
     (if \<not> rls_with_check menu_categories_policies INSERT d caller new
      then Inl row_security_violation
      else if c_id new \<in> set (map c_id (menu_categories d)) then Inl unique_violation
      else if c_restaurant_id new \<notin> set (map r_id (restaurants d))
      then Inl foreign_key_violation
      else Inr (d\<lparr>menu_categories := menu_categories d @ [new]\<rparr>))"

definition insert_menu_items :: "uuid option \<Rightarrow> menu_items_row \<Rightarrow> db \<Rightarrow> error + db" where
  "insert_menu_items caller new d =
     (case assign_price (i_price new) of
        Inl e \<Rightarrow> Inl e
      | Inr p \<Rightarrow>
          (let new' = new\<lparr>i_price := p\<rparr>
           in if \<not> rls_with_check menu_items_policies INSERT d caller new'
              then Inl row_security_violation
              else if i_price new' = None then Inl not_null_violation
              else if i_id new' \<in> set (map i_id (menu_items d)) then Inl unique_violation
              else if i_category_id new' \<notin> set (map c_id (menu_categories d))
              then Inl foreign_key_violation
              else Inr (d\<lparr>menu_items := menu_items d @ [new']\<rparr>)))"

text \<open>
  \<open>UNIQUE(user_id, role, restaurant_id)\<close>: two rows conflict when the three columns
  are equal, with SQL's equality, under which a \<open>NULL\<close> equals nothing (the
  constraint does not say \<open>NULLS NOT DISTINCT\<close>).
\<close>

definition user_roles_key_conflict :: "user_roles_row \<Rightarrow> user_roles_row \<Rightarrow> bool" where
  "user_roles_key_conflict a b =
     sql_true (sql_and (sql_eq (Some (ur_user_id a)) (Some (ur_user_id b)))
                (sql_and (sql_eq (Some (ur_role a)) (Some (ur_role b)))
                         (sql_eq (ur_restaurant_id a) (ur_restaurant_id b))))"

definition insert_user_roles :: "uuid option \<Rightarrow> user_roles_row \<Rightarrow> db \<Rightarrow> error + db" where
  "insert_user_roles caller new d =
     (if \<not> rls_with_check user_roles_policies INSERT d caller new
      then Inl row_security_violation
      else if ur_id new \<in> set (map ur_id (user_roles d)) \<or>
              list_ex (user_roles_key_conflict new) (user_roles d)
      then Inl unique_violation
      else if ur_user_id new \<notin> set (auth_users d) \<or>
              (case ur_restaurant_id new of None \<Rightarrow> False
               | Some r \<Rightarrow> r \<notin> set (map r_id (restaurants d)))
      then Inl foreign_key_violation
      else Inr (d\<lparr>user_roles := user_roles d @ [new]\<rparr>))"

text \<open>
  \<open>UPDATE ... SET ... WHERE ...\<close>. The \<open>WHERE\<close> clause is a predicate on rows and the
  \<open>SET\<close> clause a function from the old row to the proposed one. A row is a target
  when it satisfies \<open>WHERE\<close> and passes the \<open>USING\<close> of a policy for \<open>SELECT\<close> and of
  one for \<open>UPDATE\<close>; the other rows stay as they are, silently. On a target the
  \<open>BEFORE UPDATE\<close> trigger runs on the proposed row, and the result must pass a
  \<open>WITH CHECK\<close> and, for \<open>price\<close>, \<open>NOT NULL\<close>, or the statement fails. Key and
  foreign-key constraints can only make more updates fail and are left out for
  \<open>UPDATE\<close>.
\<close>

primrec update_rows ::
  "('row \<Rightarrow> bool) \<Rightarrow> ('row \<Rightarrow> error + 'row) \<Rightarrow> 'row list \<Rightarrow> error + 'row list" where
  "update_rows target upd [] = Inr []"
| "update_rows target upd (r # rs) =
     (if target r then
        (case upd r of
           Inl e \<Rightarrow> Inl e
         | Inr r' \<Rightarrow> (case update_rows target upd rs of
                       Inl e \<Rightarrow> Inl e | Inr rs' \<Rightarrow> Inr (r' # rs')))
      else (case update_rows target upd rs of
              Inl e \<Rightarrow> Inl e | Inr rs' \<Rightarrow> Inr (r # rs')))"

definition checked_row ::
  "'row policy list \<Rightarrow> db \<Rightarrow> uuid option \<Rightarrow> 'row \<Rightarrow> error + 'row" where
  "checked_row ps d caller new =
     (if rls_with_check ps UPDATE d caller new \<and> rls_using ps SELECT d caller new
      then Inr new else Inl row_security_violation)"

definition update_target ::
  "'row policy list \<Rightarrow> db \<Rightarrow> uuid option \<Rightarrow> ('row \<Rightarrow> bool) \<Rightarrow> 'row \<Rightarrow> bool" where
  "update_target ps d caller wher row =
     (wher row \<and> rls_using ps SELECT d caller row \<and> rls_using ps UPDATE d caller row)"

definition update_restaurants ::
  "uuid option \<Rightarrow> (restaurants_row \<Rightarrow> bool) \<Rightarrow> (restaurants_row \<Rightarrow> restaurants_row) \<Rightarrow>
   timestamptz \<Rightarrow> db \<Rightarrow> error + db" where
  "update_restaurants caller wher set' now d =
     (case update_rows (update_target restaurants_policies d caller wher)
             (\<lambda>old. checked_row restaurants_policies d caller
                       (set_restaurants_updated_at now (set' old)))
             (restaurants d) of
        Inl e \<Rightarrow> Inl e
      | Inr rows \<Rightarrow> Inr (d\<lparr>restaurants := rows\<rparr>))"

definition update_menu_categories ::
  "uuid option \<Rightarrow> (menu_categories_row \<Rightarrow> bool) \<Rightarrow>
   (menu_categories_row \<Rightarrow> menu_categories_row) \<Rightarrow> timestamptz \<Rightarrow> db \<Rightarrow> error + db" where
  "update_menu_categories caller wher set' now d =
     (case update_rows (update_target menu_categories_policies d caller wher)
             (\<lambda>old. checked_row menu_categories_policies d caller
                       (set_menu_categories_updated_at now (set' old)))
             (menu_categories d) of
        Inl e \<Rightarrow> Inl e
      | Inr rows \<Rightarrow> Inr (d\<lparr>menu_categories := rows\<rparr>))"

definition update_menu_items ::
  "uuid option \<Rightarrow> (menu_items_row \<Rightarrow> bool) \<Rightarrow> (menu_items_row \<Rightarrow> menu_items_row) \<Rightarrow>
   timestamptz \<Rightarrow> db \<Rightarrow> error + db" where
  "update_menu_items caller wher set' now d =
     (case update_rows (update_target menu_items_policies d caller wher)
             (\<lambda>old. case assign_price (i_price (set' old)) of
                       Inl e \<Rightarrow> Inl e
                     | Inr p \<Rightarrow>
                         (case checked_row menu_items_policies d caller
                                 (set_menu_items_updated_at now ((set' old)\<lparr>i_price := p\<rparr>)) of
                            Inl e \<Rightarrow> Inl e
                          | Inr new \<Rightarrow> if i_price new = None then Inl not_null_violation
                                      else Inr new))
             (menu_items d) of
        Inl e \<Rightarrow> Inl e
      | Inr rows \<Rightarrow> Inr (d\<lparr>menu_items := rows\<rparr>))"

text \<open>\<open>user_roles\<close> has no \<open>updated_at\<close> column and no trigger.\<close>

definition update_user_roles ::
  "uuid option \<Rightarrow> (user_roles_row \<Rightarrow> bool) \<Rightarrow> (user_roles_row \<Rightarrow> user_roles_row) \<Rightarrow>
   db \<Rightarrow> error + db" where
  "update_user_roles caller wher set' d =
     (case update_rows (update_target user_roles_policies d caller wher)
             (\<lambda>old. checked_row user_roles_policies d caller (set' old))
             (user_roles d) of
        Inl e \<Rightarrow> Inl e
      | Inr rows \<Rightarrow> Inr (d\<lparr>user_roles := rows\<rparr>))"

text \<open>
  \<open>DELETE ... WHERE ...\<close> removes the rows that satisfy \<open>WHERE\<close> and pass the \<open>USING\<close>
  of a policy for \<open>SELECT\<close> and of one for \<open>DELETE\<close>, and runs the referential
  actions. A row that does not pass stays, silently.
\<close>

definition delete_target ::
  "'row policy list \<Rightarrow> db \<Rightarrow> uuid option \<Rightarrow> ('row \<Rightarrow> bool) \<Rightarrow> 'row \<Rightarrow> bool" where
  "delete_target ps d caller wher row =
     (wher row \<and> rls_using ps SELECT d caller row \<and> rls_using ps DELETE d caller row)"

definition delete_restaurants :: "uuid option \<Rightarrow> (restaurants_row \<Rightarrow> bool) \<Rightarrow> db \<Rightarrow> db" where
  "delete_restaurants caller wher d =
     (let target = delete_target restaurants_policies d caller wher
      in on_delete_restaurants (filter target (restaurants d))
           (d\<lparr>restaurants := filter (\<lambda>r. \<not> target r) (restaurants d)\<rparr>))"

definition delete_menu_categories ::
  "uuid option \<Rightarrow> (menu_categories_row \<Rightarrow> bool) \<Rightarrow> db \<Rightarrow> db" where
  "delete_menu_categories caller wher d =
     (let target = delete_target menu_categories_policies d caller wher
      in on_delete_menu_categories (filter target (menu_categories d))
           (d\<lparr>menu_categories := filter (\<lambda>c. \<not> target c) (menu_categories d)\<rparr>))"

definition delete_menu_items :: "uuid option \<Rightarrow> (menu_items_row \<Rightarrow> bool) \<Rightarrow> db \<Rightarrow> db" where
  "delete_menu_items caller wher d =
     d\<lparr>menu_items :=
         filter (\<lambda>i. \<not> delete_target menu_items_policies d caller wher i) (menu_items d)\<rparr>"

definition delete_user_roles :: "uuid option \<Rightarrow> (user_roles_row \<Rightarrow> bool) \<Rightarrow> db \<Rightarrow> db" where
  "delete_user_roles caller wher d =
     d\<lparr>user_roles :=
         filter (\<lambda>g. \<not> delete_target user_roles_policies d caller wher g) (user_roles d)\<rparr>"

section \<open>The clients\<close>

text \<open>
  The query builder of the client: \<open>.eq\<close> is a filter with SQL's equality, \<open>.order\<close>
  sorts ascending with \<open>NULL\<close> last (rows with equal keys stay in table order here;
  strings are compared byte by byte), and \<open>.single()\<close> fails with \<open>PGRST116\<close> unless
  the result has exactly one row.
\<close>

definition single :: "'row list \<Rightarrow> error + 'row" where
  "single rows = (case rows of [r] \<Rightarrow> Inr r | _ \<Rightarrow> Inl PGRST116)"

definition nulls_last :: "int option \<Rightarrow> bool \<times> int" where
  "nulls_last v = (case v of None \<Rightarrow> (True, 0) | Some n \<Rightarrow> (False, n))"

text \<open>\<open>fetchRestaurants\<close> of the public restaurant list: the rows it puts on the page.\<close>

definition fetchRestaurants :: "uuid option \<Rightarrow> db \<Rightarrow> restaurants_row list" where
  "fetchRestaurants caller d =
     sort_key r_name
       (filter (\<lambda>r. sql_true (sql_eq (r_is_active r) (Some True)))
          (select_restaurants d caller))"

text \<open>
  The state of the public menu page. \<open>fetchRestaurantData\<close> runs when the page mounts
  and again whenever the slug of the URL changes, on the state the page then has.
  Its first query is \<open>fetch_restaurant\<close>. When that fails it throws: the \<open>catch\<close> block
  shows the toast and \<open>finally\<close> clears \<open>loading\<close>; nothing else of the state is
  touched, so the page keeps the restaurant, categories and items it had. On success
  the three are replaced; \<open>activeCategory\<close> is set only when there is a category.
\<close>

record menu_page =
  restaurant :: "restaurants_row option"
  categories :: "menu_categories_row list"
  menuItems :: "menu_items_row list"
  activeCategory :: "uuid option"
  loading :: bool
  toasts :: "string list"

definition initial_page :: menu_page where
  "initial_page =
     \<lparr>restaurant = None, categories = [], menuItems = [], activeCategory = None,
      loading = True, toasts = []\<rparr>"

definition fetch_restaurant :: "uuid option \<Rightarrow> string \<Rightarrow> db \<Rightarrow> error + restaurants_row" where
  "fetch_restaurant caller slug d =
     single
       (filter (\<lambda>r. sql_true (sql_eq (Some (r_slug r)) (Some slug)) \<and>
                     sql_true (sql_eq (r_is_active r) (Some True)))
          (select_restaurants d caller))"

definition fetchRestaurantData ::
  "uuid option \<Rightarrow> string \<Rightarrow> db \<Rightarrow> menu_page \<Rightarrow> menu_page" where
  "fetchRestaurantData caller slug d page =
     (case fetch_restaurant caller slug d of
        Inl restaurantError \<Rightarrow>
          page\<lparr>toasts := toasts page @ [''Failed to load menu''], loading := False\<rparr>
      | Inr restaurantData \<Rightarrow>
          (let categoriesData =
                 sort_key (\<lambda>c. nulls_last (c_display_order c))
                   (filter (\<lambda>c. sql_true (sql_eq (Some (c_restaurant_id c))
                                                  (Some (r_id restaurantData))) \<and>
                                 sql_true (sql_eq (c_is_active c) (Some True)))
                      (select_menu_categories d caller));
               itemsData =
                 sort_key (\<lambda>i. nulls_last (i_display_order i))
                   (filter (\<lambda>i. i_category_id i \<in> set (map c_id categoriesData) \<and>
                                 sql_true (sql_eq (i_is_available i) (Some True)))
                      (select_menu_items d caller))
           in page\<lparr>restaurant := Some restaurantData,
                   categories := categoriesData,
                   activeCategory :=
                     (case categoriesData of [] \<Rightarrow> activeCategory page
                      | c # cs \<Rightarrow> Some (c_id c)),
                   menuItems := itemsData,
                   loading := False\<rparr>))"

text \<open>What the page shows for a state: the skeleton, the not-found screen, or the menu.\<close>

datatype screen =
    Skeleton
  | Restaurant_not_found
  | Menu restaurants_row "menu_categories_row list" "menu_items_row list"

definition render :: "menu_page \<Rightarrow> screen" where
  "render p =
     (if loading p then Skeleton
      else case restaurant p of
             None \<Rightarrow> Restaurant_not_found
           | Some r \<Rightarrow> Menu r (categories p) (menuItems p))"

text \<open>
  The menu item form of the admin client. The price field holds text, and
  \<open>handleSubmit\<close> sends \<open>parseFloat\<close> of it: \<open>f_price\<close> is what reaches the store, a
  number, or \<open>null\<close> when \<open>parseFloat\<close> gives \<open>NaN\<close> or an infinity, which JSON writes
  as \<open>null\<close>. Binary floating point is left out here: the number is a rational.
  \<open>handleSubmit\<close> itself checks nothing about the price.
\<close>

record item_form =
  f_category_id :: uuid
  f_name :: string
  f_description :: string
  f_price :: "rat option"
  f_image_url :: string
  f_is_vegetarian :: bool
  f_is_vegan :: bool
  f_is_spicy :: bool
  f_display_order :: int

text \<open>
  \<open>handleSubmit\<close>: with an item being edited, an \<open>UPDATE\<close> of the form's nine columns
  on the row of that id; otherwise an \<open>INSERT\<close> of them, the store filling in the
  defaults of \<open>id\<close> (\<open>gen_random_uuid()\<close>, a parameter here), \<open>is_available\<close>,
  \<open>created_at\<close> and \<open>updated_at\<close>. \<open>price\<close> has no default. The other columns without
  a default (\<open>category_id\<close>, \<open>name\<close>) hold placeholders in \<open>menu_items_defaults\<close>,
  which \<open>itemData\<close> always overwrites.
\<close>

definition itemData :: "item_form \<Rightarrow> menu_items_row \<Rightarrow> menu_items_row" where
  "itemData f row =
     row\<lparr>i_category_id := f_category_id f,
         i_name := f_name f,
         i_description := Some (f_description f),
         i_price := map_option Number (f_price f),
         i_image_url := Some (f_image_url f),
         i_is_vegetarian := Some (f_is_vegetarian f),
         i_is_vegan := Some (f_is_vegan f),
         i_is_spicy := Some (f_is_spicy f),
         i_display_order := Some (f_display_order f)\<rparr>"

definition menu_items_defaults :: "uuid \<Rightarrow> timestamptz \<Rightarrow> menu_items_row" where
  "menu_items_defaults fresh now =
     \<lparr>i_id = fresh, i_category_id = 0, i_name = [], i_description = None, i_price = None,
      i_image_url = None, i_is_vegetarian = Some False, i_is_vegan = Some False,
      i_is_spicy = Some False, i_is_available = Some True, i_display_order = Some 0,
      i_created_at = Some now, i_updated_at = Some now\<rparr>"

definition handleSubmit ::
  "uuid option \<Rightarrow> uuid option \<Rightarrow> item_form \<Rightarrow> uuid \<Rightarrow> timestamptz \<Rightarrow> db \<Rightarrow> error + db" where
  "handleSubmit caller editingItem formData fresh now d =
     (case editingItem of
        Some item_id \<Rightarrow>
          update_menu_items caller (\<lambda>i. i_id i = item_id) (itemData formData) now d
      | None \<Rightarrow>
          insert_menu_items caller (itemData formData (menu_items_defaults fresh now)) d)"

text \<open>\<open>handleDelete\<close> of the restaurant administration: one \<open>DELETE\<close> by id.\<close>

definition handleDelete :: "uuid option \<Rightarrow> uuid \<Rightarrow> db \<Rightarrow> db" where
  "handleDelete caller rid d = delete_restaurants caller (\<lambda>r. r_id r = rid) d"

section \<open>The scenario of the testable properties\<close>

text \<open>
  The restaurant \<open>pizza-palace\<close> with its category "Starters" and the item "Garlic
  Bread" at 149.00, as the menu item form creates it; user 7 holds a global \<open>admin\<close>
  grant and user 8 a \<open>user\<close> grant for the restaurant.
\<close>

definition pizza_palace :: restaurants_row where
  "pizza_palace =
     \<lparr>r_id = 10, r_name = ''Pizza Palace'', r_slug = ''pizza-palace'',
      r_description = None, r_logo_url = None, r_banner_image_url = None,
      r_theme_color = Some ''#FF6B35'', r_background_color = Some ''#FFF5F0'',
      r_contact_phone = None, r_contact_email = None, r_address = None,
      r_is_active = Some True, r_created_at = Some 100, r_updated_at = Some 100\<rparr>"

definition starters :: menu_categories_row where
  "starters =
     \<lparr>c_id = 20, c_restaurant_id = 10, c_name = ''Starters'', c_description = None,
      c_display_order = Some 0, c_is_active = Some True, c_created_at = Some 100,
      c_updated_at = Some 100\<rparr>"

definition garlic_bread_form :: item_form where
  "garlic_bread_form =
     \<lparr>f_category_id = 20, f_name = ''Garlic Bread'', f_description = [],
      f_price = Some 149,
      f_image_url = [], f_is_vegetarian = False, f_is_vegan = False, f_is_spicy = False,
      f_display_order = 0\<rparr>"

definition garlic_bread :: menu_items_row where
  "garlic_bread = itemData garlic_bread_form (menu_items_defaults 30 100)"

definition admin_grant :: user_roles_row where
  "admin_grant =
     \<lparr>ur_id = 40, ur_user_id = 7, ur_role = admin, ur_restaurant_id = None,
      ur_created_at = Some 100\<rparr>"

definition user_grant :: user_roles_row where
  "user_grant =
     \<lparr>ur_id = 41, ur_user_id = 8, ur_role = user, ur_restaurant_id = Some 10,
      ur_created_at = Some 100\<rparr>"

definition scenario_db :: db where
  "scenario_db =
     \<lparr>restaurants = [pizza_palace], menu_categories = [starters],
      menu_items = [garlic_bread], user_roles = [admin_grant, user_grant],
      auth_users = [7, 8]\<rparr>"

text \<open>The same store with the restaurant switched off, and one that never had it.\<close>

definition inactive_db :: db where
  "inactive_db = scenario_db\<lparr>restaurants := [pizza_palace\<lparr>r_is_active := Some False\<rparr>]\<rparr>"

definition bare_db :: db where
  "bare_db =
     \<lparr>restaurants = [], menu_categories = [], menu_items = [],
      user_roles = [admin_grant], auth_users = [7, 8]\<rparr>"

text \<open>
  The foreign keys of the schema: a category references a restaurant, an item a
  category, and a role grant with a scope a restaurant.
\<close>

definition referential_integrity :: "db \<Rightarrow> bool" where
  "referential_integrity d =
     ((\<forall>c\<in>set (menu_categories d). c_restaurant_id c \<in> r_id ` set (restaurants d)) \<and>
      (\<forall>i\<in>set (menu_items d). i_category_id i \<in> c_id ` set (menu_categories d)) \<and>
      (\<forall>g\<in>set (user_roles d).
         case ur_restaurant_id g of None \<Rightarrow> True
         | Some r \<Rightarrow> r \<in> r_id ` set (restaurants d)))"

text \<open>A store with a second restaurant, which has a category, an item and a manager.\<close>

definition curry_house :: restaurants_row where
  "curry_house = pizza_palace\<lparr>r_id := 11, r_name := ''Curry House'', r_slug := ''curry-house''\<rparr>"

definition mains :: menu_categories_row where
  "mains = starters\<lparr>c_id := 21, c_restaurant_id := 11, c_name := ''Mains''\<rparr>"

definition dal :: menu_items_row where
  "dal = garlic_bread\<lparr>i_id := 31, i_category_id := 21, i_name := ''Dal'',
           i_price := Some (Number 199)\<rparr>"

definition manager_grant :: user_roles_row where
  "manager_grant =
     \<lparr>ur_id = 42, ur_user_id = 8, ur_role = manager, ur_restaurant_id = Some 11,
      ur_created_at = Some 100\<rparr>"

definition two_db :: db where
  "two_db =
     \<lparr>restaurants = [pizza_palace, curry_house], menu_categories = [starters, mains],
      menu_items = [garlic_bread, dal],
      user_roles = [admin_grant, user_grant, manager_grant], auth_users = [7, 8]\<rparr>"

text \<open>
  The second store with the first restaurant switched off, and the menu page after it
  has loaded the second restaurant there.
\<close>

definition two_inactive_db :: db where
  "two_inactive_db =
     two_db\<lparr>restaurants := [pizza_palace\<lparr>r_is_active := Some False\<rparr>, curry_house]\<rparr>"

definition curry_page :: menu_page where
  "curry_page =
     \<lparr>restaurant = Some curry_house, categories = [mains], menuItems = [dal],
      activeCategory = Some 21, loading = False, toasts = []\<rparr>"

text \<open>
  A store without its restaurants that are not active, and without the categories and
  items under them: what the two menu tables would be had they never existed. The
  role grants stay as they are.
\<close>

definition without_inactive :: "db \<Rightarrow> db" where
  "without_inactive d =
     (let rs = filter (\<lambda>r. r_is_active r = Some True) (restaurants d);
          cs = filter (\<lambda>c. c_restaurant_id c \<in> r_id ` set rs) (menu_categories d);
          its = filter (\<lambda>i. i_category_id i \<in> c_id ` set cs) (menu_items d)
      in d\<lparr>restaurants := rs, menu_categories := cs, menu_items := its\<rparr>)"

text \<open>
  A number that a \<open>DECIMAL(10, 2)\<close> column can hold: a whole number of hundredths,
  below \<open>10^8\<close> in magnitude. A stored price is such a number or \<open>NaN\<close>.
\<close>

definition is_numeric_10_2 :: "rat \<Rightarrow> bool" where
  "is_numeric_10_2 p = (of_int \<lfloor>p * 100\<rfloor> = p * 100 \<and> \<bar>p\<bar> < 10 ^ 8)"

definition is_stored_price :: "numeric option \<Rightarrow> bool" where
  "is_stored_price v =
     (case v of
        Some (Number p) \<Rightarrow> is_numeric_10_2 p
      | Some NaN \<Rightarrow> True
      | _ \<Rightarrow> False)"

section \<open>How the policies decide\<close>

lemmas scenario_defs =
  scenario_db_def inactive_db_def bare_db_def pizza_palace_def starters_def
  garlic_bread_def garlic_bread_form_def admin_grant_def user_grant_def itemData_def
  menu_items_defaults_def

lemma has_role_iff:
  "has_role d (Some u) r \<longleftrightarrow> (\<exists>g\<in>set (user_roles d). ur_user_id g = u \<and> ur_role g = r)"
  by (auto simp: has_role_def list_ex_iff sql_true_def sql_and_def sql_eq_def)

lemma has_role_None: "\<not> has_role d None r"
  by (simp add: has_role_def list_ex_iff sql_true_def sql_and_def sql_eq_def)

lemmas policy_defs =
  restaurants_policies_def menu_categories_policies_def menu_items_policies_def
  user_roles_policies_def user_roles_policies_initial_def create_policy_def
  drop_policy_if_exists_def admins_can_manage_def applies_def auth_role_def
  sql_true_def sql_eq_def sql_or_def

lemma rls_using_restaurants:
  "rls_using restaurants_policies cmd d caller row \<longleftrightarrow>
     (cmd = SELECT \<and> r_is_active row = Some True) \<or>
     (caller \<noteq> None \<and> has_role d caller admin)"
  by (auto simp: rls_using_def policy_defs has_role_None split: option.splits)

lemma rls_using_menu_categories:
  "rls_using menu_categories_policies cmd d caller row \<longleftrightarrow>
     (cmd = SELECT \<and> c_is_active row = Some True) \<or>
     (caller \<noteq> None \<and> has_role d caller admin)"
  by (auto simp: rls_using_def policy_defs has_role_None split: option.splits)

lemma rls_using_menu_items:
  "rls_using menu_items_policies cmd d caller row \<longleftrightarrow>
     (cmd = SELECT \<and> i_is_available row = Some True) \<or>
     (caller \<noteq> None \<and> has_role d caller admin)"
  by (auto simp: rls_using_def policy_defs has_role_None split: option.splits)

lemma rls_using_user_roles:
  "rls_using user_roles_policies cmd d caller row \<longleftrightarrow>
     caller \<noteq> None \<and>
     ((cmd = SELECT \<and> caller = Some (ur_user_id row)) \<or> has_role d caller admin)"
  by (auto simp: rls_using_def policy_defs has_role_None split: option.splits)

lemma rls_with_check_restaurants:
  "cmd \<noteq> SELECT \<Longrightarrow>
   rls_with_check restaurants_policies cmd d caller row \<longleftrightarrow>
     caller \<noteq> None \<and> has_role d caller admin"
  by (auto simp: rls_with_check_def policy_defs has_role_None split: option.splits)

lemma rls_with_check_menu_categories:
  "cmd \<noteq> SELECT \<Longrightarrow>
   rls_with_check menu_categories_policies cmd d caller row \<longleftrightarrow>
     caller \<noteq> None \<and> has_role d caller admin"
  by (auto simp: rls_with_check_def policy_defs has_role_None split: option.splits)

lemma rls_with_check_menu_items:
  "cmd \<noteq> SELECT \<Longrightarrow>
   rls_with_check menu_items_policies cmd d caller row \<longleftrightarrow>
     caller \<noteq> None \<and> has_role d caller admin"
  by (auto simp: rls_with_check_def policy_defs has_role_None split: option.splits)

lemma rls_with_check_user_roles:
  "cmd \<noteq> SELECT \<Longrightarrow>
   rls_with_check user_roles_policies cmd d caller row \<longleftrightarrow>
     caller \<noteq> None \<and> has_role d caller admin"
  by (auto simp: rls_with_check_def policy_defs has_role_None split: option.splits)

lemmas rls_using_simps =
  rls_using_restaurants rls_using_menu_categories rls_using_menu_items rls_using_user_roles

lemmas rls_with_check_simps =
  rls_with_check_restaurants rls_with_check_menu_categories rls_with_check_menu_items
  rls_with_check_user_roles

lemma has_role_scenario:
  "has_role scenario_db (Some 7) admin" "\<not> has_role scenario_db (Some 8) admin"
  "has_role inactive_db (Some 7) admin" "has_role bare_db (Some 7) admin"
  by (simp_all add: has_role_iff scenario_defs)

lemmas scenario_rows =
  pizza_palace_def starters_def garlic_bread_def garlic_bread_form_def admin_grant_def
  user_grant_def itemData_def menu_items_defaults_def

lemma scenario_tables:
  "restaurants scenario_db = [pizza_palace]" "menu_categories scenario_db = [starters]"
  "menu_items scenario_db = [garlic_bread]" "user_roles scenario_db = [admin_grant, user_grant]"
  "restaurants bare_db = []" "menu_categories bare_db = []" "menu_items bare_db = []"
  by (simp_all add: scenario_db_def bare_db_def)

section \<open>The role check\<close>

text \<open>
  Claim C3. \<open>has_role(identity, role)\<close> is true exactly when some row of \<open>user_roles\<close>
  has that identity as \<open>user_id\<close> and that role, whatever the row's \<open>restaurant_id\<close>:
  rewriting every scope leaves the answer as it is. So one \<open>admin\<close> grant, for any
  restaurant or for none, opens every command on every row of the four tables. The
  function reads the table itself and not what the caller may select: an anonymous
  caller may select no row of \<open>user_roles\<close> at all.
\<close>
theorem has_role_any_scope:
  "(has_role d (Some u) r \<longleftrightarrow>
      (\<exists>g\<in>set (user_roles d). ur_user_id g = u \<and> ur_role g = r)) \<and>
   has_role (d\<lparr>user_roles := map (\<lambda>g. g\<lparr>ur_restaurant_id := scope g\<rparr>) (user_roles d)\<rparr>)
      (Some u) r = has_role d (Some u) r \<and>
   ((\<exists>g\<in>set (user_roles d). ur_user_id g = u \<and> ur_role g = admin) \<longrightarrow>
      (\<forall>cmd.
         (\<forall>row. rls_using restaurants_policies cmd d (Some u) row \<and>
                rls_with_check restaurants_policies cmd d (Some u) row) \<and>
         (\<forall>row. rls_using menu_categories_policies cmd d (Some u) row \<and>
                rls_with_check menu_categories_policies cmd d (Some u) row) \<and>
         (\<forall>row. rls_using menu_items_policies cmd d (Some u) row \<and>
                rls_with_check menu_items_policies cmd d (Some u) row) \<and>
         (\<forall>row. rls_using user_roles_policies cmd d (Some u) row \<and>
                rls_with_check user_roles_policies cmd d (Some u) row))) \<and>
   select_user_roles d None = []"
proof (intro conjI impI allI)
  show "has_role d (Some u) r \<longleftrightarrow>
      (\<exists>g\<in>set (user_roles d). ur_user_id g = u \<and> ur_role g = r)"
    by (rule has_role_iff)
  show "has_role (d\<lparr>user_roles := map (\<lambda>g. g\<lparr>ur_restaurant_id := scope g\<rparr>) (user_roles d)\<rparr>)
      (Some u) r = has_role d (Some u) r"
    by (simp add: has_role_iff)
  show "select_user_roles d None = []"
    by (simp add: select_user_roles_def rls_using_user_roles)
next
  fix cmd and row :: restaurants_row
  assume "\<exists>g\<in>set (user_roles d). ur_user_id g = u \<and> ur_role g = admin"
  then have a: "has_role d (Some u) admin" by (simp add: has_role_iff)
  show "rls_using restaurants_policies cmd d (Some u) row"
    using a by (simp add: rls_using_restaurants)
  show "rls_with_check restaurants_policies cmd d (Some u) row"
    using a by (auto simp: rls_with_check_def policy_defs)
next
  fix cmd and row :: menu_categories_row
  assume "\<exists>g\<in>set (user_roles d). ur_user_id g = u \<and> ur_role g = admin"
  then have a: "has_role d (Some u) admin" by (simp add: has_role_iff)
  show "rls_using menu_categories_policies cmd d (Some u) row"
    using a by (simp add: rls_using_menu_categories)
  show "rls_with_check menu_categories_policies cmd d (Some u) row"
    using a by (auto simp: rls_with_check_def policy_defs)
next
  fix cmd and row :: menu_items_row
  assume "\<exists>g\<in>set (user_roles d). ur_user_id g = u \<and> ur_role g = admin"
  then have a: "has_role d (Some u) admin" by (simp add: has_role_iff)
  show "rls_using menu_items_policies cmd d (Some u) row"
    using a by (simp add: rls_using_menu_items)
  show "rls_with_check menu_items_policies cmd d (Some u) row"
    using a by (auto simp: rls_with_check_def policy_defs)
next
  fix cmd and row :: user_roles_row
  assume "\<exists>g\<in>set (user_roles d). ur_user_id g = u \<and> ur_role g = admin"
  then have a: "has_role d (Some u) admin" by (simp add: has_role_iff)
  show "rls_using user_roles_policies cmd d (Some u) row"
    using a by (simp add: rls_using_user_roles)
  show "rls_with_check user_roles_policies cmd d (Some u) row"
    using a by (auto simp: rls_with_check_def policy_defs)
qed

theorem has_role_any_scope_witness:
  "(\<exists>g\<in>set (user_roles scenario_db). ur_user_id g = 7 \<and> ur_role g = admin) \<and>
   has_role scenario_db (Some 7) admin \<and>
   has_role (scenario_db\<lparr>user_roles :=
       map (\<lambda>g. g\<lparr>ur_restaurant_id := Some 99\<rparr>) (user_roles scenario_db)\<rparr>) (Some 7) admin \<and>
   rls_using restaurants_policies DELETE scenario_db (Some 7) pizza_palace \<and>
   rls_with_check menu_items_policies INSERT scenario_db (Some 7) garlic_bread \<and>
   select_user_roles scenario_db None = []"
proof -
  have g: "\<exists>g\<in>set (user_roles scenario_db). ur_user_id g = 7 \<and> ur_role g = admin"
    by (simp add: scenario_defs)
  show ?thesis
    using g has_role_any_scope [where d = scenario_db and u = 7 and r = admin
        and scope = "\<lambda>g. Some 99"]
    by blast
qed

section \<open>Reading role grants\<close>

text \<open>
  Claim C4. For an authenticated caller all of whose grants have the role \<open>user\<close>, a
  select against \<open>user_roles\<close> returns exactly the rows whose \<open>user_id\<close> is the caller's
  id, in table order, and no row of another user.
\<close>

theorem select_user_roles_own_rows:
  assumes "\<forall>g\<in>set (user_roles d). ur_user_id g = u \<longrightarrow> ur_role g = user"
  shows "select_user_roles d (Some u) = filter (\<lambda>g. ur_user_id g = u) (user_roles d)"
proof -
  have "\<not> has_role d (Some u) admin"
    using assms by (auto simp: has_role_iff)
  then show ?thesis
    by (auto simp: select_user_roles_def rls_using_user_roles intro!: filter_cong)
qed

theorem select_user_roles_own_rows_witness:
  "list_all (\<lambda>g. ur_user_id g = 8 \<longrightarrow> ur_role g = user) (user_roles scenario_db) \<and>
   select_user_roles scenario_db (Some 8) = [user_grant] \<and>
   user_roles scenario_db = [admin_grant, user_grant]"
proof -
  have h: "\<forall>g\<in>set (user_roles scenario_db). ur_user_id g = 8 \<longrightarrow> ur_role g = user"
    by (simp add: scenario_defs)
  show ?thesis
    using h select_user_roles_own_rows [OF h] by (simp add: scenario_defs list_all_iff)
qed

section \<open>Writes\<close>

lemma update_rows_no_target:
  "(\<forall>r\<in>set rows. \<not> target r) \<Longrightarrow> update_rows target upd rows = Inr rows"
  by (induction rows) auto

lemma on_delete_menu_categories_Nil: "on_delete_menu_categories [] d = d"
  by (simp add: on_delete_menu_categories_def)

lemma on_delete_restaurants_Nil: "on_delete_restaurants [] d = d"
  by (simp add: on_delete_restaurants_def on_delete_menu_categories_def Let_def
      option.case_eq_if)

lemma not_admin_no_target:
  assumes "caller = None \<or> \<not> has_role d caller admin" and "cmd \<noteq> SELECT"
  shows "\<not> rls_using restaurants_policies cmd d caller r"
    and "\<not> rls_using menu_categories_policies cmd d caller c"
    and "\<not> rls_using menu_items_policies cmd d caller i"
    and "\<not> rls_using user_roles_policies cmd d caller g"
    and "\<not> rls_with_check restaurants_policies cmd d caller r"
    and "\<not> rls_with_check menu_categories_policies cmd d caller c"
    and "\<not> rls_with_check menu_items_policies cmd d caller i"
    and "\<not> rls_with_check user_roles_policies cmd d caller g"
  using assms by (auto simp: rls_using_simps rls_with_check_simps)

lemma closed_world:
  "(\<forall>p\<in>set ps. \<not> applies p cmd caller) \<Longrightarrow>
   \<not> rls_using ps cmd d caller row \<and> \<not> rls_with_check ps cmd d caller row'"
  by (auto simp: rls_using_def rls_with_check_def list_ex_iff)

text \<open>
  Claim C1. A caller who is anonymous or holds no \<open>admin\<close> grant cannot write to
  \<open>restaurants\<close>, \<open>menu_categories\<close>, \<open>menu_items\<close> or \<open>user_roles\<close>: every insert
  fails, and every update and delete leaves the store as it was, on any row (for
  \<open>user_roles\<close> also on the caller's own rows). For a command other than select, a
  policy lets a row through exactly when the caller is authenticated and
  \<open>has_role(caller, admin)\<close> holds. Where no policy applies to the command and the
  caller, nothing is allowed.
\<close>

theorem writes_need_admin:
  "(caller = None \<or> \<not> has_role d caller admin \<longrightarrow>
      insert_restaurants caller r d = Inl row_security_violation \<and>
      update_restaurants caller wr sr now d = Inr d \<and>
      delete_restaurants caller wr d = d \<and>
      insert_menu_categories caller c d = Inl row_security_violation \<and>
      update_menu_categories caller wc sc now d = Inr d \<and>
      delete_menu_categories caller wc d = d \<and>
      insert_menu_items caller i d =
        Inl (case assign_price (i_price i) of Inl e \<Rightarrow> e | Inr p \<Rightarrow> row_security_violation) \<and>
      update_menu_items caller wi si now d = Inr d \<and>
      delete_menu_items caller wi d = d \<and>
      insert_user_roles caller g d = Inl row_security_violation \<and>
      update_user_roles caller wg sg d = Inr d \<and>
      delete_user_roles caller wg d = d) \<and>
   (cmd \<noteq> SELECT \<longrightarrow>
      (rls_using restaurants_policies cmd d caller r \<longleftrightarrow>
         caller \<noteq> None \<and> has_role d caller admin) \<and>
      (rls_with_check restaurants_policies cmd d caller r \<longleftrightarrow>
         caller \<noteq> None \<and> has_role d caller admin) \<and>
      (rls_using menu_categories_policies cmd d caller c \<longleftrightarrow>
         caller \<noteq> None \<and> has_role d caller admin) \<and>
      (rls_with_check menu_categories_policies cmd d caller c \<longleftrightarrow>
         caller \<noteq> None \<and> has_role d caller admin) \<and>
      (rls_using menu_items_policies cmd d caller i \<longleftrightarrow>
         caller \<noteq> None \<and> has_role d caller admin) \<and>
      (rls_with_check menu_items_policies cmd d caller i \<longleftrightarrow>
         caller \<noteq> None \<and> has_role d caller admin) \<and>
      (rls_using user_roles_policies cmd d caller g \<longleftrightarrow>
         caller \<noteq> None \<and> has_role d caller admin) \<and>
      (rls_with_check user_roles_policies cmd d caller g \<longleftrightarrow>
         caller \<noteq> None \<and> has_role d caller admin)) \<and>
   ((\<forall>p\<in>set ps. \<not> applies p cmd caller) \<longrightarrow>
      \<not> rls_using ps cmd d caller row \<and> \<not> rls_with_check ps cmd d caller row)"
proof (intro conjI impI)
  assume na: "caller = None \<or> \<not> has_role d caller admin"
  note nt = not_admin_no_target [OF na]
  show "insert_restaurants caller r d = Inl row_security_violation"
    by (simp add: insert_restaurants_def nt)
  show "insert_menu_categories caller c d = Inl row_security_violation"
    by (simp add: insert_menu_categories_def nt)
  show "insert_menu_items caller i d =
        Inl (case assign_price (i_price i) of Inl e \<Rightarrow> e | Inr p \<Rightarrow> row_security_violation)"
    by (simp add: insert_menu_items_def nt Let_def split: sum.splits)
  show "insert_user_roles caller g d = Inl row_security_violation"
    by (simp add: insert_user_roles_def nt)
  show "update_restaurants caller wr sr now d = Inr d"
    by (simp add: update_restaurants_def update_rows_no_target update_target_def nt)
  show "update_menu_categories caller wc sc now d = Inr d"
    by (simp add: update_menu_categories_def update_rows_no_target update_target_def nt)
  show "update_menu_items caller wi si now d = Inr d"
    by (simp add: update_menu_items_def update_rows_no_target update_target_def nt)
  show "update_user_roles caller wg sg d = Inr d"
    by (simp add: update_user_roles_def update_rows_no_target update_target_def nt)
  show "delete_restaurants caller wr d = d"
    by (simp add: delete_restaurants_def delete_target_def nt on_delete_restaurants_Nil)
  show "delete_menu_categories caller wc d = d"
    by (simp add: delete_menu_categories_def delete_target_def nt
        on_delete_menu_categories_Nil)
  show "delete_menu_items caller wi d = d"
    by (simp add: delete_menu_items_def delete_target_def nt)
  show "delete_user_roles caller wg d = d"
    by (simp add: delete_user_roles_def delete_target_def nt)
next
  assume "\<forall>p\<in>set ps. \<not> applies p cmd caller"
  then show "\<not> rls_using ps cmd d caller row" "\<not> rls_with_check ps cmd d caller row"
    by (simp_all add: closed_world)
qed (simp_all add: rls_using_simps rls_with_check_simps)

theorem writes_need_admin_witness:
  "\<not> has_role scenario_db (Some 8) admin \<and>
   insert_restaurants (Some 8) pizza_palace scenario_db = Inl row_security_violation \<and>
   update_menu_items (Some 8) (\<lambda>i. True) (\<lambda>i. i\<lparr>i_price := Some (Number 1)\<rparr>) 200 scenario_db
     = Inr scenario_db \<and>
   delete_restaurants (Some 8) (\<lambda>r. True) scenario_db = scenario_db \<and>
   delete_user_roles (Some 8) (\<lambda>g. ur_user_id g = 8) scenario_db = scenario_db \<and>
   DELETE \<noteq> SELECT \<and>
   \<not> rls_using restaurants_policies DELETE scenario_db (Some 8) pizza_palace \<and>
   list_all (\<lambda>p. \<not> applies p DELETE None) restaurants_policies \<and>
   \<not> rls_using restaurants_policies DELETE scenario_db None pizza_palace"
proof -
  have h: "Some 8 = None \<or> \<not> has_role scenario_db (Some 8) admin"
    by (simp add: has_role_scenario)
  have n: "\<forall>p\<in>set restaurants_policies. \<not> applies p DELETE None"
    by (simp add: policy_defs)
  have h': "\<not> has_role scenario_db (Some 8) admin"
    by (simp add: has_role_scenario)
  have n': "list_all (\<lambda>p. \<not> applies p DELETE None) restaurants_policies"
    using n by (simp add: list_all_iff)
  show ?thesis
    using h h' n n'
      writes_need_admin [where caller = "Some 8" and d = scenario_db and cmd = DELETE
        and r = pizza_palace and wr = "\<lambda>r. True" and wi = "\<lambda>i. True"
        and si = "\<lambda>i. i\<lparr>i_price := Some (Number 1)\<rparr>" and now = 200
        and wg = "\<lambda>g. ur_user_id g = 8"
        and ps = "[]::restaurants_row policy list"]
      writes_need_admin [where caller = None and d = scenario_db and cmd = DELETE
        and ps = restaurants_policies and row = pizza_palace]
    by simp
qed

section \<open>Public reads\<close>

lemma single_Inr: "single rows = Inr r \<longleftrightarrow> rows = [r]"
  by (auto simp: single_def split: list.splits)

lemma fetch_restaurant_Inr:
  assumes "fetch_restaurant caller slug d = Inr r"
  shows "r \<in> set (restaurants d)" and "r_slug r = slug" and "r_is_active r = Some True"
proof -
  let ?q = "filter (\<lambda>r. sql_true (sql_eq (Some (r_slug r)) (Some slug)) \<and>
                           sql_true (sql_eq (r_is_active r) (Some True)))
                (select_restaurants d caller)"
  from assms have "?q = [r]" by (simp add: fetch_restaurant_def single_Inr)
  then have "r \<in> set ?q" by simp
  then show "r \<in> set (restaurants d)" "r_slug r = slug" "r_is_active r = Some True"
    by (auto simp: select_restaurants_def sql_true_def sql_eq_def split: option.splits)
qed

lemma fetchRestaurantData_success:
  assumes "fetch_restaurant caller slug d = Inr r"
  shows "restaurant (fetchRestaurantData caller slug d page) = Some r"
    and "set (categories (fetchRestaurantData caller slug d page)) =
           {c \<in> set (menu_categories d). c_restaurant_id c = r_id r \<and> c_is_active c = Some True}"
    and "set (menuItems (fetchRestaurantData caller slug d page)) =
           {i \<in> set (menu_items d). i_is_available i = Some True \<and>
              i_category_id i \<in> c_id ` set (categories (fetchRestaurantData caller slug d page))}"
    and "loading (fetchRestaurantData caller slug d page) = False"
    and "toasts (fetchRestaurantData caller slug d page) = toasts page"
  using assms
  by (auto simp: fetchRestaurantData_def Let_def select_menu_categories_def
      select_menu_items_def rls_using_menu_categories rls_using_menu_items
      sql_true_def sql_eq_def split: option.splits)

lemma fetchRestaurantData_failure:
  "fetch_restaurant caller slug d = Inl e \<Longrightarrow>
   fetchRestaurantData caller slug d page =
     page\<lparr>toasts := toasts page @ [''Failed to load menu''], loading := False\<rparr>"
  by (simp add: fetchRestaurantData_def)

lemma fetchRestaurantData_initial_found:
  assumes "restaurant (fetchRestaurantData caller slug d initial_page) = Some r"
  shows "fetch_restaurant caller slug d = Inr r"
proof (cases "fetch_restaurant caller slug d")
  case (Inl e)
  from fetchRestaurantData_failure [OF Inl, of initial_page] assms show ?thesis
    by (simp add: initial_page_def)
next
  case (Inr r')
  from fetchRestaurantData_success(1) [OF Inr, of initial_page] assms Inr show ?thesis
    by simp
qed

lemma fetchRestaurantData_items_available:
  assumes "i \<in> set (menuItems (fetchRestaurantData caller slug d initial_page))"
  shows "i \<in> set (menu_items d) \<and> i_is_available i = Some True"
proof (cases "fetch_restaurant caller slug d")
  case (Inl e)
  from fetchRestaurantData_failure [OF Inl, of initial_page] assms show ?thesis
    by (simp add: initial_page_def)
next
  case (Inr r)
  from fetchRestaurantData_success(3) [OF Inr, of initial_page] assms show ?thesis by simp
qed

lemma set_fetchRestaurants:
  "set (fetchRestaurants caller d) = {r \<in> set (restaurants d). r_is_active r = Some True}"
  by (auto simp: fetchRestaurants_def select_restaurants_def rls_using_restaurants
      sql_true_def sql_eq_def split: option.splits)

lemma fetch_restaurant_scenario:
  "fetch_restaurant None ''pizza-palace'' scenario_db = Inr pizza_palace"
  by (simp add: fetch_restaurant_def select_restaurants_def rls_using_simps single_def
      sql_true_def sql_eq_def scenario_tables scenario_rows)

lemma fetch_scenario:
  "fetchRestaurantData None ''pizza-palace'' scenario_db initial_page =
     \<lparr>restaurant = Some pizza_palace, categories = [starters], menuItems = [garlic_bread],
      activeCategory = Some 20, loading = False, toasts = []\<rparr>"
  by (simp add: fetchRestaurantData_def fetch_restaurant_scenario select_menu_categories_def
      select_menu_items_def rls_using_simps sql_true_def sql_eq_def initial_page_def
      scenario_tables scenario_rows nulls_last_def Let_def)

text \<open>
  Claim C2, as stated, fails: for an authenticated admin the policy "Admins can manage
  restaurants" is \<open>FOR ALL\<close>, select included, so a select of the admin returns a row
  whose \<open>is_active\<close> is false.
\<close>

theorem select_restaurants_admin_counterexample:
  "r_is_active (pizza_palace\<lparr>r_is_active := Some False\<rparr>) \<noteq> Some True \<and>
   rls_using restaurants_policies SELECT inactive_db (Some 7)
     (pizza_palace\<lparr>r_is_active := Some False\<rparr>) \<and>
   select_restaurants inactive_db (Some 7) = [pizza_palace\<lparr>r_is_active := Some False\<rparr>]"
  by (simp add: select_restaurants_def rls_using_restaurants has_role_scenario)
    (simp add: inactive_db_def scenario_db_def)

text \<open>
  Claim C2, amended. A select against \<open>restaurants\<close> is allowed exactly when
  \<open>is_active = true\<close> for every caller who is anonymous or holds no \<open>admin\<close> grant; an
  authenticated admin may select every row. The public restaurant list and the public
  menu fetch filter on the flags themselves, whoever calls: the list holds exactly the
  active restaurants, every item the fetch returns has \<open>is_available = true\<close>, and a
  fetch that finds the restaurant returns exactly its active categories and exactly
  the available items of those categories, on the first load of the page and on any
  state the page had before.
\<close>

theorem public_reads_filter:
  "(caller = None \<or> \<not> has_role d caller admin \<longrightarrow>
      (rls_using restaurants_policies SELECT d caller r \<longleftrightarrow> r_is_active r = Some True)) \<and>
   (caller \<noteq> None \<and> has_role d caller admin \<longrightarrow>
      rls_using restaurants_policies SELECT d caller r) \<and>
   set (fetchRestaurants caller d) =
     {r \<in> set (restaurants d). r_is_active r = Some True} \<and>
   (\<forall>i\<in>set (menuItems (fetchRestaurantData caller slug d initial_page)).
      i \<in> set (menu_items d) \<and> i_is_available i = Some True) \<and>
   (\<forall>f. restaurant (fetchRestaurantData caller slug d initial_page) = Some f \<longrightarrow>
      f \<in> set (restaurants d) \<and> r_slug f = slug \<and> r_is_active f = Some True \<and>
      set (categories (fetchRestaurantData caller slug d initial_page)) =
        {c \<in> set (menu_categories d).
           c_restaurant_id c = r_id f \<and> c_is_active c = Some True} \<and>
      set (menuItems (fetchRestaurantData caller slug d initial_page)) =
        {i \<in> set (menu_items d). i_is_available i = Some True \<and>
           i_category_id i \<in>
             c_id ` set (categories (fetchRestaurantData caller slug d initial_page))}) \<and>
   (\<forall>f. fetch_restaurant caller slug d = Inr f \<longrightarrow>
      f \<in> set (restaurants d) \<and> r_slug f = slug \<and> r_is_active f = Some True \<and>
      restaurant (fetchRestaurantData caller slug d page) = Some f \<and>
      set (categories (fetchRestaurantData caller slug d page)) =
        {c \<in> set (menu_categories d).
           c_restaurant_id c = r_id f \<and> c_is_active c = Some True} \<and>
      set (menuItems (fetchRestaurantData caller slug d page)) =
        {i \<in> set (menu_items d). i_is_available i = Some True \<and>
           i_category_id i \<in>
             c_id ` set (categories (fetchRestaurantData caller slug d page))})"
proof (intro conjI impI allI ballI)
  assume "caller = None \<or> \<not> has_role d caller admin"
  then show "rls_using restaurants_policies SELECT d caller r \<longleftrightarrow> r_is_active r = Some True"
    by (auto simp: rls_using_restaurants)
next
  assume "caller \<noteq> None \<and> has_role d caller admin"
  then show "rls_using restaurants_policies SELECT d caller r"
    by (simp add: rls_using_restaurants)
next
  show "set (fetchRestaurants caller d) =
     {r \<in> set (restaurants d). r_is_active r = Some True}"
    by (rule set_fetchRestaurants)
next
  fix i assume "i \<in> set (menuItems (fetchRestaurantData caller slug d initial_page))"
  then show "i \<in> set (menu_items d)" "i_is_available i = Some True"
    by (simp_all add: fetchRestaurantData_items_available)
next
  fix f assume "restaurant (fetchRestaurantData caller slug d initial_page) = Some f"
  then have f: "fetch_restaurant caller slug d = Inr f"
    by (rule fetchRestaurantData_initial_found)
  show "f \<in> set (restaurants d)" "r_slug f = slug" "r_is_active f = Some True"
    by (rule fetch_restaurant_Inr [OF f])+
  show "set (categories (fetchRestaurantData caller slug d initial_page)) =
        {c \<in> set (menu_categories d).
           c_restaurant_id c = r_id f \<and> c_is_active c = Some True}"
    by (rule fetchRestaurantData_success(2) [OF f])
  show "set (menuItems (fetchRestaurantData caller slug d initial_page)) =
        {i \<in> set (menu_items d). i_is_available i = Some True \<and>
           i_category_id i \<in>
             c_id ` set (categories (fetchRestaurantData caller slug d initial_page))}"
    by (rule fetchRestaurantData_success(3) [OF f])
next
  fix f assume f: "fetch_restaurant caller slug d = Inr f"
  show "f \<in> set (restaurants d)" "r_slug f = slug" "r_is_active f = Some True"
    by (rule fetch_restaurant_Inr [OF f])+
  show "restaurant (fetchRestaurantData caller slug d page) = Some f"
    by (rule fetchRestaurantData_success(1) [OF f])
  show "set (categories (fetchRestaurantData caller slug d page)) =
        {c \<in> set (menu_categories d).
           c_restaurant_id c = r_id f \<and> c_is_active c = Some True}"
    by (rule fetchRestaurantData_success(2) [OF f])
  show "set (menuItems (fetchRestaurantData caller slug d page)) =
        {i \<in> set (menu_items d). i_is_available i = Some True \<and>
           i_category_id i \<in>
             c_id ` set (categories (fetchRestaurantData caller slug d page))}"
    by (rule fetchRestaurantData_success(3) [OF f])
qed

theorem public_reads_filter_witness:
  "(None = None \<or> \<not> has_role scenario_db None admin) \<and>
   r_is_active pizza_palace = Some True \<and>
   rls_using restaurants_policies SELECT scenario_db None pizza_palace \<and>
   (Some 7 \<noteq> None \<and> has_role inactive_db (Some 7) admin) \<and>
   rls_using restaurants_policies SELECT inactive_db (Some 7)
       (pizza_palace\<lparr>r_is_active := Some False\<rparr>) \<and>
   restaurant (fetchRestaurantData None ''pizza-palace'' scenario_db initial_page)
     = Some pizza_palace \<and>
   garlic_bread \<in>
     set (menuItems (fetchRestaurantData None ''pizza-palace'' scenario_db initial_page)) \<and>
   i_is_available garlic_bread = Some True \<and>
   set (fetchRestaurants None scenario_db) =
     {r \<in> set (restaurants scenario_db). r_is_active r = Some True} \<and>
   r_slug pizza_palace = ''pizza-palace'' \<and>
   fetch_restaurant None ''pizza-palace'' scenario_db = Inr pizza_palace \<and>
   restaurant (fetchRestaurantData None ''pizza-palace'' scenario_db curry_page)
     = Some pizza_palace"
proof -
  note t = public_reads_filter [where caller = None and d = scenario_db
      and r = pizza_palace and slug = "''pizza-palace''" and page = curry_page]
  note t' = public_reads_filter [where caller = "Some 7" and d = inactive_db
      and r = "pizza_palace\<lparr>r_is_active := Some False\<rparr>"]
  have h1: "None = None \<or> \<not> has_role scenario_db None admin" by simp
  have act: "r_is_active pizza_palace = Some True" by (simp add: pizza_palace_def)
  have c1: "rls_using restaurants_policies SELECT scenario_db None pizza_palace"
    using t [THEN conjunct1] h1 act by blast
  have h2: "Some 7 \<noteq> None \<and> has_role inactive_db (Some 7) admin"
    by (simp add: has_role_scenario)
  have c2: "rls_using restaurants_policies SELECT inactive_db (Some 7)
       (pizza_palace\<lparr>r_is_active := Some False\<rparr>)"
    using t' [THEN conjunct2, THEN conjunct1] h2 by blast
  have f: "restaurant (fetchRestaurantData None ''pizza-palace'' scenario_db initial_page)
      = Some pizza_palace"
    by (simp add: fetch_scenario)
  have g: "garlic_bread \<in>
      set (menuItems (fetchRestaurantData None ''pizza-palace'' scenario_db initial_page))"
    by (simp add: fetch_scenario)
  have c3: "i_is_available garlic_bread = Some True"
    using t [THEN conjunct2, THEN conjunct2, THEN conjunct2, THEN conjunct1] g by blast
  have c4: "set (fetchRestaurants None scenario_db) =
     {r \<in> set (restaurants scenario_db). r_is_active r = Some True}"
    by (rule t [THEN conjunct2, THEN conjunct2, THEN conjunct1])
  have c5: "r_slug pizza_palace = ''pizza-palace''"
    using t [THEN conjunct2, THEN conjunct2, THEN conjunct2, THEN conjunct2, THEN conjunct1] f
    by blast
  note q = fetch_restaurant_scenario
  have c6: "restaurant (fetchRestaurantData None ''pizza-palace'' scenario_db curry_page)
      = Some pizza_palace"
    using t [THEN conjunct2, THEN conjunct2, THEN conjunct2, THEN conjunct2, THEN conjunct2] q
    by blast
  from h1 act c1 h2 c2 f g c3 c4 c5 q c6 show ?thesis by blast
qed

section \<open>Not found\<close>

lemma fetch_restaurant_no_active:
  assumes "\<forall>r\<in>set (restaurants d). r_slug r = slug \<longrightarrow> r_is_active r \<noteq> Some True"
  shows "fetch_restaurant caller slug d = Inl PGRST116"
proof -
  have "filter (\<lambda>r. sql_true (sql_eq (Some (r_slug r)) (Some slug)) \<and>
                     sql_true (sql_eq (r_is_active r) (Some True)))
          (select_restaurants d caller) = []"
    using assms
    by (auto simp: filter_empty_conv select_restaurants_def sql_true_def sql_eq_def
        split: option.splits)
  then show ?thesis by (simp add: fetch_restaurant_def single_def)
qed

lemma has_role_without_inactive: "has_role (without_inactive d) u r = has_role d u r"
  by (simp add: has_role_def without_inactive_def Let_def)

lemma without_inactive_tables:
  "restaurants (without_inactive d) = filter (\<lambda>r. r_is_active r = Some True) (restaurants d)"
  "menu_categories (without_inactive d) =
     filter (\<lambda>c. c_restaurant_id c \<in>
                  r_id ` set (filter (\<lambda>r. r_is_active r = Some True) (restaurants d)))
       (menu_categories d)"
  "menu_items (without_inactive d) =
     filter (\<lambda>i. i_category_id i \<in> c_id ` set (menu_categories (without_inactive d)))
       (menu_items d)"
  by (simp_all add: without_inactive_def Let_def)

lemma select_restaurants_without_inactive:
  "filter (\<lambda>r. P r \<and> sql_true (sql_eq (r_is_active r) (Some True)))
     (select_restaurants (without_inactive d) caller) =
   filter (\<lambda>r. P r \<and> sql_true (sql_eq (r_is_active r) (Some True)))
     (select_restaurants d caller)"
  unfolding select_restaurants_def without_inactive_tables filter_filter
  by (rule filter_cong)
    (auto simp: rls_using_restaurants has_role_without_inactive sql_true_def sql_eq_def
      split: option.splits)

lemma fetch_restaurant_without_inactive:
  "fetch_restaurant caller slug (without_inactive d) = fetch_restaurant caller slug d"
  unfolding fetch_restaurant_def by (simp only: select_restaurants_without_inactive)

lemma fetchRestaurants_without_inactive:
  "fetchRestaurants caller (without_inactive d) = fetchRestaurants caller d"
  using select_restaurants_without_inactive [of "\<lambda>r. True" d caller]
  by (simp add: fetchRestaurants_def)

lemma categories_without_inactive:
  assumes "r \<in> set (restaurants d)" and "r_is_active r = Some True"
  shows "filter (\<lambda>c. sql_true (sql_eq (Some (c_restaurant_id c)) (Some (r_id r))) \<and>
                     sql_true (sql_eq (c_is_active c) (Some True)))
           (select_menu_categories (without_inactive d) caller) =
         filter (\<lambda>c. sql_true (sql_eq (Some (c_restaurant_id c)) (Some (r_id r))) \<and>
                     sql_true (sql_eq (c_is_active c) (Some True)))
           (select_menu_categories d caller)"
  unfolding select_menu_categories_def without_inactive_tables filter_filter
  using assms
  by (intro filter_cong)
    (auto simp: rls_using_menu_categories has_role_without_inactive sql_true_def sql_eq_def
      split: option.splits)

lemma items_without_inactive:
  assumes "set cs \<subseteq> set (menu_categories (without_inactive d))"
  shows "filter (\<lambda>i. i_category_id i \<in> set (map c_id cs) \<and>
                     sql_true (sql_eq (i_is_available i) (Some True)))
           (select_menu_items (without_inactive d) caller) =
         filter (\<lambda>i. i_category_id i \<in> set (map c_id cs) \<and>
                     sql_true (sql_eq (i_is_available i) (Some True)))
           (select_menu_items d caller)"
  unfolding select_menu_items_def without_inactive_tables(3) filter_filter
  using assms
  by (intro filter_cong)
    (auto simp: rls_using_menu_items has_role_without_inactive sql_true_def sql_eq_def
      split: option.splits)

lemma fetchRestaurantData_without_inactive:
  "fetchRestaurantData caller slug (without_inactive d) page =
   fetchRestaurantData caller slug d page"
proof (cases "fetch_restaurant caller slug d")
  case (Inl e)
  then show ?thesis
    by (simp add: fetchRestaurantData_def fetch_restaurant_without_inactive)
next
  case (Inr r)
  note r = fetch_restaurant_Inr [OF Inr]
  let ?cs = "filter (\<lambda>c. sql_true (sql_eq (Some (c_restaurant_id c)) (Some (r_id r))) \<and>
                     sql_true (sql_eq (c_is_active c) (Some True)))
           (select_menu_categories d caller)"
  have "set ?cs \<subseteq> set (menu_categories (without_inactive d))"
    using r(1,3)
    by (auto simp: without_inactive_tables select_menu_categories_def sql_true_def sql_eq_def)
  then have s: "set (sort_key (\<lambda>c. nulls_last (c_display_order c)) ?cs)
      \<subseteq> set (menu_categories (without_inactive d))"
    by simp
  show ?thesis
    unfolding fetchRestaurantData_def fetch_restaurant_without_inactive Inr sum.case
      categories_without_inactive [OF r(1,3)] Let_def items_without_inactive [OF s]
    by (rule refl)
qed

text \<open>
  Claim C9, as stated, fails in two places. The \<open>catch\<close> block resets nothing, so after
  the page has loaded one restaurant, a change of the slug to an inactive restaurant
  leaves the loaded menu on screen, not the not-found screen. And row security does
  not hide the menu of an inactive restaurant: an anonymous select on
  \<open>menu_categories\<close> and \<open>menu_items\<close> returns its rows, which a store that never had
  the restaurant does not.
\<close>

theorem stale_menu_counterexample:
  "restaurants two_inactive_db = [pizza_palace\<lparr>r_is_active := Some False\<rparr>, curry_house] \<and>
   r_slug (pizza_palace\<lparr>r_is_active := Some False\<rparr>) = ''pizza-palace'' \<and>
   fetchRestaurantData None ''curry-house'' two_inactive_db initial_page = curry_page \<and>
   render (fetchRestaurantData None ''pizza-palace'' two_inactive_db curry_page)
     = Menu curry_house [mains] [dal] \<and>
   select_menu_categories inactive_db None = [starters] \<and>
   select_menu_categories bare_db None = [] \<and>
   select_menu_items inactive_db None = [garlic_bread] \<and>
   select_menu_items bare_db None = []"
proof -
  have t: "restaurants two_inactive_db = [pizza_palace\<lparr>r_is_active := Some False\<rparr>, curry_house]"
    "menu_categories two_inactive_db = [starters, mains]"
    "menu_items two_inactive_db = [garlic_bread, dal]"
    "menu_categories inactive_db = [starters]" "menu_items inactive_db = [garlic_bread]"
    by (simp_all add: two_inactive_db_def two_db_def inactive_db_def scenario_db_def)
  have rows: "r_slug pizza_palace = ''pizza-palace''" "r_slug curry_house = ''curry-house''"
    "r_is_active curry_house = Some True" "r_id curry_house = 11"
    "c_restaurant_id starters = 10" "c_restaurant_id mains = 11"
    "c_is_active starters = Some True" "c_is_active mains = Some True"
    "c_id starters = 20" "c_id mains = 21" "c_display_order mains = Some 0"
    "i_category_id garlic_bread = 20" "i_category_id dal = 21"
    "i_is_available garlic_bread = Some True" "i_is_available dal = Some True"
    "i_display_order dal = Some 0"
    by (simp_all add: scenario_rows curry_house_def mains_def dal_def)
  have q1: "fetch_restaurant None ''curry-house'' two_inactive_db = Inr curry_house"
    by (simp add: fetch_restaurant_def select_restaurants_def rls_using_simps single_def
        sql_true_def sql_eq_def t rows)
  have q2: "fetch_restaurant None ''pizza-palace'' two_inactive_db = Inl PGRST116"
    by (rule fetch_restaurant_no_active) (simp add: t rows)
  have f1: "fetchRestaurantData None ''curry-house'' two_inactive_db initial_page = curry_page"
    by (simp add: fetchRestaurantData_def q1 select_menu_categories_def
        select_menu_items_def rls_using_simps sql_true_def sql_eq_def initial_page_def
        curry_page_def t rows nulls_last_def Let_def)
  have f2: "render (fetchRestaurantData None ''pizza-palace'' two_inactive_db curry_page)
     = Menu curry_house [mains] [dal]"
    by (simp add: fetchRestaurantData_failure [OF q2] render_def curry_page_def)
  have s: "select_menu_categories inactive_db None = [starters]"
    "select_menu_categories bare_db None = []"
    "select_menu_items inactive_db None = [garlic_bread]"
    "select_menu_items bare_db None = []"
    by (simp_all add: select_menu_categories_def select_menu_items_def rls_using_simps
        t rows scenario_tables)
  from t(1) rows(1) f1 f2 s show ?thesis by simp
qed

text \<open>
  Claim C9, amended. A fetch of the public menu by slug, by any caller and from any
  state of the page, ends in the same page state for a store in which the restaurant
  of that slug exists but is not active and for a store with no restaurant of that
  slug: the restaurant query fails with the same error, the same toast is added and
  the rest of the page is left as it was. On a page that holds no restaurant, as on
  its first load, both end on the not-found screen. The public restaurant list and
  the public menu fetch give the same result on a store as on that store without its
  inactive restaurants and what they own. Row security alone shows an anonymous
  caller every active category and every available item, whatever the restaurant.
\<close>

theorem inactive_looks_absent:
  assumes "\<exists>r\<in>set (restaurants d1). r_slug r = slug"
    and "\<forall>r\<in>set (restaurants d1). r_slug r = slug \<longrightarrow> r_is_active r \<noteq> Some True"
    and "\<forall>r\<in>set (restaurants d2). r_slug r \<noteq> slug"
  shows "fetchRestaurantData caller slug d1 page = fetchRestaurantData caller slug d2 page \<and>
         fetchRestaurantData caller slug d1 page =
           page\<lparr>toasts := toasts page @ [''Failed to load menu''], loading := False\<rparr> \<and>
         (restaurant page = None \<longrightarrow>
            render (fetchRestaurantData caller slug d1 page) = Restaurant_not_found \<and>
            render (fetchRestaurantData caller slug d2 page) = Restaurant_not_found) \<and>
         fetchRestaurants caller (without_inactive d) = fetchRestaurants caller d \<and>
         fetchRestaurantData caller slug' (without_inactive d) page =
           fetchRestaurantData caller slug' d page \<and>
         select_menu_categories d None =
           filter (\<lambda>c. c_is_active c = Some True) (menu_categories d) \<and>
         select_menu_items d None =
           filter (\<lambda>i. i_is_available i = Some True) (menu_items d)"
proof -
  have q1: "fetch_restaurant caller slug d1 = Inl PGRST116"
    by (rule fetch_restaurant_no_active [OF assms(2)])
  have q2: "fetch_restaurant caller slug d2 = Inl PGRST116"
    by (rule fetch_restaurant_no_active) (use assms(3) in blast)
  note f1 = fetchRestaurantData_failure [OF q1, of page]
  note f2 = fetchRestaurantData_failure [OF q2, of page]
  have s: "select_menu_categories d None =
           filter (\<lambda>c. c_is_active c = Some True) (menu_categories d)"
    "select_menu_items d None =
           filter (\<lambda>i. i_is_available i = Some True) (menu_items d)"
    by (auto simp: select_menu_categories_def select_menu_items_def rls_using_simps
        intro!: filter_cong)
  show ?thesis
    by (simp add: f1 f2 render_def fetchRestaurants_without_inactive
        fetchRestaurantData_without_inactive s)
qed

theorem inactive_looks_absent_witness:
  "(\<exists>r\<in>set (restaurants inactive_db). r_slug r = ''pizza-palace'') \<and>
   list_all (\<lambda>r. r_slug r = ''pizza-palace'' \<longrightarrow> r_is_active r \<noteq> Some True)
     (restaurants inactive_db) \<and>
   list_all (\<lambda>r. r_slug r \<noteq> ''pizza-palace'') (restaurants bare_db) \<and>
   restaurant initial_page = None \<and>
   fetchRestaurantData None ''pizza-palace'' inactive_db initial_page =
     fetchRestaurantData None ''pizza-palace'' bare_db initial_page \<and>
   render (fetchRestaurantData None ''pizza-palace'' inactive_db initial_page)
     = Restaurant_not_found \<and>
   render (fetchRestaurantData None ''pizza-palace'' bare_db initial_page)
     = Restaurant_not_found \<and>
   fetchRestaurantData None ''pizza-palace'' inactive_db curry_page =
     fetchRestaurantData None ''pizza-palace'' bare_db curry_page"
proof -
  have h1: "\<exists>r\<in>set (restaurants inactive_db). r_slug r = ''pizza-palace''"
    by (simp add: scenario_defs)
  have h2: "\<forall>r\<in>set (restaurants inactive_db).
      r_slug r = ''pizza-palace'' \<longrightarrow> r_is_active r \<noteq> Some True"
    by (simp add: scenario_defs)
  have h3: "\<forall>r\<in>set (restaurants bare_db). r_slug r \<noteq> ''pizza-palace''"
    by (simp add: scenario_defs)
  have h4: "restaurant initial_page = None"
    by (simp add: initial_page_def)
  show ?thesis
    using h1 h2 h3 h4
      inactive_looks_absent [OF h1 h2 h3, of None initial_page]
      inactive_looks_absent [OF h1 h2 h3, of None curry_page]
    by (simp add: list_all_iff)
qed

section \<open>Timestamps\<close>

lemma update_rows_Inr:
  "update_rows target upd rows = Inr rows' \<Longrightarrow>
   list_all2 (\<lambda>old new. if target old then upd old = Inr new else new = old) rows rows'"
proof (induction rows arbitrary: rows')
  case Nil
  then show ?case by simp
next
  case (Cons r rs)
  from Cons.prems obtain rs' where rs': "update_rows target upd rs = Inr rs'"
    by (cases "update_rows target upd rs") (auto split: if_splits sum.splits)
  note ih = Cons.IH [OF rs']
  show ?case
  proof (cases "target r")
    case True
    with Cons.prems rs' obtain r' where "upd r = Inr r'" "rows' = r' # rs'"
      by (cases "upd r") auto
    with True ih show ?thesis by simp
  next
    case False
    with Cons.prems rs' have "rows' = r # rs'" by simp
    with False ih show ?thesis by simp
  qed
qed

lemma checked_row_Inr: "checked_row ps d caller new = Inr new' \<Longrightarrow> new' = new"
  by (simp add: checked_row_def split: if_splits)

lemma update_restaurants_rows:
  assumes "update_restaurants caller wher set' now d = Inr d'"
  shows "list_all2 (\<lambda>old new.
           if update_target restaurants_policies d caller wher old
           then new = (set' old)\<lparr>r_updated_at := Some now\<rparr> else new = old)
         (restaurants d) (restaurants d')"
proof -
  from assms obtain rows where
    r: "update_rows (update_target restaurants_policies d caller wher)
             (\<lambda>old. checked_row restaurants_policies d caller
                       (set_restaurants_updated_at now (set' old)))
             (restaurants d) = Inr rows" and d': "d' = d\<lparr>restaurants := rows\<rparr>"
    by (auto simp: update_restaurants_def split: sum.splits)
  show ?thesis
    using update_rows_Inr [OF r] unfolding d'
    by (auto elim!: list_all2_mono dest!: checked_row_Inr
        simp: set_restaurants_updated_at_def handle_updated_at_def split: if_splits)
qed

lemma update_menu_categories_rows:
  assumes "update_menu_categories caller wher set' now d = Inr d'"
  shows "list_all2 (\<lambda>old new.
           if update_target menu_categories_policies d caller wher old
           then new = (set' old)\<lparr>c_updated_at := Some now\<rparr> else new = old)
         (menu_categories d) (menu_categories d')"
proof -
  from assms obtain rows where
    r: "update_rows (update_target menu_categories_policies d caller wher)
             (\<lambda>old. checked_row menu_categories_policies d caller
                       (set_menu_categories_updated_at now (set' old)))
             (menu_categories d) = Inr rows" and d': "d' = d\<lparr>menu_categories := rows\<rparr>"
    by (auto simp: update_menu_categories_def split: sum.splits)
  show ?thesis
    using update_rows_Inr [OF r] unfolding d'
    by (auto elim!: list_all2_mono dest!: checked_row_Inr
        simp: set_menu_categories_updated_at_def handle_updated_at_def split: if_splits)
qed

lemma update_menu_items_row:
  assumes "(case assign_price (i_price s) of
              Inl e \<Rightarrow> Inl e
            | Inr p \<Rightarrow>
                (case checked_row menu_items_policies d caller
                        (set_menu_items_updated_at now (s\<lparr>i_price := p\<rparr>)) of
                   Inl e \<Rightarrow> Inl e
                 | Inr new \<Rightarrow> if i_price new = None then Inl not_null_violation
                             else Inr new)) = Inr new"
  shows "\<exists>p. assign_price (i_price s) = Inr (Some p) \<and>
             new = s\<lparr>i_price := Some p, i_updated_at := Some now\<rparr>"
proof -
  from assms obtain p where p: "assign_price (i_price s) = Inr p"
    by (cases "assign_price (i_price s)") auto
  with assms obtain r where
    r: "checked_row menu_items_policies d caller
          (set_menu_items_updated_at now (s\<lparr>i_price := p\<rparr>)) = Inr r"
    by (cases "checked_row menu_items_policies d caller
          (set_menu_items_updated_at now (s\<lparr>i_price := p\<rparr>))") auto
  from checked_row_Inr [OF r]
  have r': "r = s\<lparr>i_price := p, i_updated_at := Some now\<rparr>"
    by (simp add: set_menu_items_updated_at_def handle_updated_at_def)
  from assms p r have n: "i_price r \<noteq> None" "new = r"
    by (auto split: if_splits)
  from n(1) r' obtain q where "p = Some q" by (cases p) auto
  with p r' n(2) show ?thesis by simp
qed

lemma update_menu_items_rows:
  assumes "update_menu_items caller wher set' now d = Inr d'"
  shows "list_all2 (\<lambda>old new.
           if update_target menu_items_policies d caller wher old
           then \<exists>p. assign_price (i_price (set' old)) = Inr (Some p) \<and>
                    new = (set' old)\<lparr>i_price := Some p, i_updated_at := Some now\<rparr>
           else new = old)
         (menu_items d) (menu_items d')"
proof -
  from assms obtain rows where
    r: "update_rows (update_target menu_items_policies d caller wher)
             (\<lambda>old. case assign_price (i_price (set' old)) of
                       Inl e \<Rightarrow> Inl e
                     | Inr p \<Rightarrow>
                         (case checked_row menu_items_policies d caller
                                 (set_menu_items_updated_at now ((set' old)\<lparr>i_price := p\<rparr>)) of
                            Inl e \<Rightarrow> Inl e
                          | Inr new \<Rightarrow> if i_price new = None then Inl not_null_violation
                                      else Inr new))
             (menu_items d) = Inr rows" and d': "d' = d\<lparr>menu_items := rows\<rparr>"
    by (auto simp: update_menu_items_def split: sum.splits)
  have "list_all2 (\<lambda>old new.
           if update_target menu_items_policies d caller wher old
           then \<exists>p. assign_price (i_price (set' old)) = Inr (Some p) \<and>
                    new = (set' old)\<lparr>i_price := Some p, i_updated_at := Some now\<rparr>
           else new = old)
         (menu_items d) rows"
    using update_rows_Inr [OF r]
    by (rule list_all2_mono) (auto split: if_splits dest: update_menu_items_row)
  then show ?thesis by (simp add: d')
qed

lemma assign_price_Number:
  "numeric_10_2 (Number p) = Inr (Number q) \<Longrightarrow>
   assign_price (Some (Number p)) = Inr (Some (Number q))"
  by (simp add: assign_price_def)

lemma numeric_10_2_exact:
  assumes "of_int \<lfloor>p * 100\<rfloor> = p * 100" and "\<bar>p\<bar> < 10 ^ 8"
  shows "numeric_10_2 (Number p) = Inr (Number p)"
proof -
  define n where "n = \<lfloor>p * 100\<rfloor>"
  have pn: "p * 100 = of_int n" unfolding n_def by (rule assms(1) [symmetric])
  then have p: "p = of_int n / 100" by simp
  have r1: "\<lfloor>(of_int n :: rat) + 1 / 2\<rfloor> = n" by (simp add: floor_eq_iff)
  have r2: "\<lfloor>- (of_int n :: rat) + 1 / 2\<rfloor> = - n" by (simp add: floor_eq_iff)
  have "\<bar>p * 100\<bar> < 10 ^ 8 * 100" using assms(2) by (simp add: abs_mult)
  then have "\<bar>(of_int n :: rat)\<bar> < of_int (10 ^ 10)" by (simp add: pn)
  then have b: "\<bar>n\<bar> < 10 ^ 10" by (simp only: of_int_abs [symmetric] of_int_less_iff)
  have h: "(if 0 \<le> p then \<lfloor>p * 100 + 1 / 2\<rfloor> else - \<lfloor>- p * 100 + 1 / 2\<rfloor>) = n"
    using r1 r2 by (simp add: pn)
  have q: "of_int n / 100 = p" by (simp add: p)
  have nb: "\<not> 10 ^ 10 \<le> \<bar>n\<bar>" using b by simp
  show ?thesis
    unfolding numeric_10_2_def Let_def numeric.case h by (simp only: nb q if_False)
qed

text \<open>
  Claim C5, as stated, fails twice. An update may assign \<open>created_at\<close>: no trigger or
  constraint protects the column. And no trigger runs on insert, so an inserted row
  can carry an \<open>updated_at\<close> in the future, which the next update then lowers.
\<close>

theorem created_at_counterexample:
  "r_created_at pizza_palace = Some 100 \<and>
   update_restaurants (Some 7) (\<lambda>r. r_id r = 10) (\<lambda>r. r\<lparr>r_created_at := Some 5\<rparr>) 200
       scenario_db
     = Inr (scenario_db\<lparr>restaurants :=
              [pizza_palace\<lparr>r_created_at := Some 5, r_updated_at := Some 200\<rparr>]\<rparr>) \<and>
   insert_restaurants (Some 7) (pizza_palace\<lparr>r_updated_at := Some 1000\<rparr>) bare_db
     = Inr (bare_db\<lparr>restaurants := [pizza_palace\<lparr>r_updated_at := Some 1000\<rparr>]\<rparr>) \<and>
   update_restaurants (Some 7) (\<lambda>r. r_id r = 10) (\<lambda>r. r\<lparr>r_is_active := Some False\<rparr>) 200
       (bare_db\<lparr>restaurants := [pizza_palace\<lparr>r_updated_at := Some 1000\<rparr>]\<rparr>)
     = Inr (bare_db\<lparr>restaurants :=
              [pizza_palace\<lparr>r_is_active := Some False, r_updated_at := Some 200\<rparr>]\<rparr>)"
proof -
  have a: "has_role (bare_db\<lparr>restaurants := [pizza_palace\<lparr>r_updated_at := Some 1000\<rparr>]\<rparr>)
             (Some 7) admin"
    by (simp add: has_role_iff bare_db_def admin_grant_def)
  have i: "r_id pizza_palace = 10" "r_created_at pizza_palace = Some 100"
    by (simp_all add: pizza_palace_def)
  show ?thesis
    by (simp add: update_restaurants_def insert_restaurants_def update_target_def
        checked_row_def rls_using_simps rls_with_check_simps has_role_scenario a i
        set_restaurants_updated_at_def handle_updated_at_def scenario_tables)
qed

text \<open>
  Claim C5, amended. In every successful update of \<open>restaurants\<close>, \<open>menu_categories\<close> or
  \<open>menu_items\<close>, each row the update changes gets the statement's current time as
  \<open>updated_at\<close>, whatever the \<open>SET\<close> clause assigns, an \<open>updated_at\<close> of the caller
  included; the new value is at least the previous one whenever the previous one is
  not later than the current time. \<open>created_at\<close> is what the \<open>SET\<close> clause makes of it:
  unchanged by every update that does not assign it. The other rows stay as they
  are. A menu item inserted by the form gets the current time as \<open>created_at\<close> and as
  \<open>updated_at\<close>.
\<close>

theorem updated_at_is_now:
  "(update_restaurants caller wr sr now d = Inr dr \<longrightarrow>
      list_all2 (\<lambda>old new.
          if update_target restaurants_policies d caller wr old
          then r_updated_at new = Some now \<and>
               (\<forall>t. r_updated_at old = Some t \<and> t \<le> now \<longrightarrow>
                  (\<exists>t'. r_updated_at new = Some t' \<and> t \<le> t')) \<and>
               r_created_at new = r_created_at (sr old)
          else new = old)
        (restaurants d) (restaurants dr)) \<and>
   (update_menu_categories caller wc sc now d = Inr dc \<longrightarrow>
      list_all2 (\<lambda>old new.
          if update_target menu_categories_policies d caller wc old
          then c_updated_at new = Some now \<and>
               (\<forall>t. c_updated_at old = Some t \<and> t \<le> now \<longrightarrow>
                  (\<exists>t'. c_updated_at new = Some t' \<and> t \<le> t')) \<and>
               c_created_at new = c_created_at (sc old)
          else new = old)
        (menu_categories d) (menu_categories dc)) \<and>
   (update_menu_items caller wi si now d = Inr di \<longrightarrow>
      list_all2 (\<lambda>old new.
          if update_target menu_items_policies d caller wi old
          then i_updated_at new = Some now \<and>
               (\<forall>t. i_updated_at old = Some t \<and> t \<le> now \<longrightarrow>
                  (\<exists>t'. i_updated_at new = Some t' \<and> t \<le> t')) \<and>
               i_created_at new = i_created_at (si old)
          else new = old)
        (menu_items d) (menu_items di)) \<and>
   (handleSubmit caller None formData fresh now d = Inr dn \<longrightarrow>
      (\<exists>row. menu_items dn = menu_items d @ [row] \<and>
         i_created_at row = Some now \<and> i_updated_at row = Some now))"
proof (intro conjI impI)
  assume "update_restaurants caller wr sr now d = Inr dr"
  from update_restaurants_rows [OF this]
  show "list_all2 (\<lambda>old new.
          if update_target restaurants_policies d caller wr old
          then r_updated_at new = Some now \<and>
               (\<forall>t. r_updated_at old = Some t \<and> t \<le> now \<longrightarrow>
                  (\<exists>t'. r_updated_at new = Some t' \<and> t \<le> t')) \<and>
               r_created_at new = r_created_at (sr old)
          else new = old)
        (restaurants d) (restaurants dr)"
    by (rule list_all2_mono) (auto split: if_splits)
next
  assume "update_menu_categories caller wc sc now d = Inr dc"
  from update_menu_categories_rows [OF this]
  show "list_all2 (\<lambda>old new.
          if update_target menu_categories_policies d caller wc old
          then c_updated_at new = Some now \<and>
               (\<forall>t. c_updated_at old = Some t \<and> t \<le> now \<longrightarrow>
                  (\<exists>t'. c_updated_at new = Some t' \<and> t \<le> t')) \<and>
               c_created_at new = c_created_at (sc old)
          else new = old)
        (menu_categories d) (menu_categories dc)"
    by (rule list_all2_mono) (auto split: if_splits)
next
  assume "update_menu_items caller wi si now d = Inr di"
  from update_menu_items_rows [OF this]
  show "list_all2 (\<lambda>old new.
          if update_target menu_items_policies d caller wi old
          then i_updated_at new = Some now \<and>
               (\<forall>t. i_updated_at old = Some t \<and> t \<le> now \<longrightarrow>
                  (\<exists>t'. i_updated_at new = Some t' \<and> t \<le> t')) \<and>
               i_created_at new = i_created_at (si old)
          else new = old)
        (menu_items d) (menu_items di)"
    by (rule list_all2_mono) (auto split: if_splits)
next
  assume "handleSubmit caller None formData fresh now d = Inr dn"
  then show "\<exists>row. menu_items dn = menu_items d @ [row] \<and>
         i_created_at row = Some now \<and> i_updated_at row = Some now"
    by (auto simp: handleSubmit_def insert_menu_items_def Let_def itemData_def
        menu_items_defaults_def split: sum.splits if_splits)
qed

lemma numeric_10_2_149: "numeric_10_2 (Number 149) = Inr (Number 149)"
  by (rule numeric_10_2_exact) (simp_all add: floor_eq_iff)

lemma assign_price_149: "assign_price (Some (Number 149)) = Inr (Some (Number 149))"
  by (rule assign_price_Number) (rule numeric_10_2_149)

theorem updated_at_is_now_witness:
  "update_restaurants (Some 7) (\<lambda>r. r_id r = 10) (\<lambda>r. r\<lparr>r_updated_at := Some 1\<rparr>) 200
       scenario_db
     = Inr (scenario_db\<lparr>restaurants := [pizza_palace\<lparr>r_updated_at := Some 200\<rparr>]\<rparr>) \<and>
   update_menu_categories (Some 7) (\<lambda>c. c_id c = 20) (\<lambda>c. c\<lparr>c_name := ''Mains''\<rparr>) 200
       scenario_db
     = Inr (scenario_db\<lparr>menu_categories :=
              [starters\<lparr>c_name := ''Mains'', c_updated_at := Some 200\<rparr>]\<rparr>) \<and>
   update_menu_items (Some 7) (\<lambda>i. i_id i = 30) (\<lambda>i. i\<lparr>i_is_available := Some False\<rparr>) 200
       scenario_db
     = Inr (scenario_db\<lparr>menu_items :=
              [garlic_bread\<lparr>i_is_available := Some False, i_updated_at := Some 200\<rparr>]\<rparr>) \<and>
   handleSubmit (Some 7) None garlic_bread_form 31 200 scenario_db
     = Inr (scenario_db\<lparr>menu_items :=
              [garlic_bread, itemData garlic_bread_form (menu_items_defaults 31 200)]\<rparr>) \<and>
   list_all2 (\<lambda>old new. r_updated_at new = Some 200 \<and> r_created_at new = r_created_at old)
     [pizza_palace] [pizza_palace\<lparr>r_updated_at := Some 200\<rparr>] \<and>
   list_all2 (\<lambda>old new. c_updated_at new = Some 200 \<and> c_created_at new = c_created_at old)
     [starters] [starters\<lparr>c_name := ''Mains'', c_updated_at := Some 200\<rparr>] \<and>
   list_all2 (\<lambda>old new. i_updated_at new = Some 200 \<and> i_created_at new = i_created_at old)
     [garlic_bread] [garlic_bread\<lparr>i_is_available := Some False, i_updated_at := Some 200\<rparr>] \<and>
   i_created_at (itemData garlic_bread_form (menu_items_defaults 31 200)) = Some 200"
proof -
  have ids: "r_id pizza_palace = 10" "c_id starters = 20" "i_id garlic_bread = 30"
    "i_price garlic_bread = Some (Number 149)" "i_category_id garlic_bread = 20"
    by (simp_all add: scenario_defs)
  have h1: "update_restaurants (Some 7) (\<lambda>r. r_id r = 10) (\<lambda>r. r\<lparr>r_updated_at := Some 1\<rparr>) 200
       scenario_db
     = Inr (scenario_db\<lparr>restaurants := [pizza_palace\<lparr>r_updated_at := Some 200\<rparr>]\<rparr>)"
    by (simp add: update_restaurants_def update_target_def checked_row_def rls_using_simps
        rls_with_check_simps has_role_scenario ids set_restaurants_updated_at_def
        handle_updated_at_def scenario_tables)
  have h2: "update_menu_categories (Some 7) (\<lambda>c. c_id c = 20) (\<lambda>c. c\<lparr>c_name := ''Mains''\<rparr>) 200
       scenario_db
     = Inr (scenario_db\<lparr>menu_categories :=
              [starters\<lparr>c_name := ''Mains'', c_updated_at := Some 200\<rparr>]\<rparr>)"
    by (simp add: update_menu_categories_def update_target_def checked_row_def rls_using_simps
        rls_with_check_simps has_role_scenario ids set_menu_categories_updated_at_def
        handle_updated_at_def scenario_tables)
  have p: "garlic_bread\<lparr>i_price := Some (Number 149)\<rparr> = garlic_bread"
    using ids(4) by simp
  have h3: "update_menu_items (Some 7) (\<lambda>i. i_id i = 30) (\<lambda>i. i\<lparr>i_is_available := Some False\<rparr>) 200
       scenario_db
     = Inr (scenario_db\<lparr>menu_items :=
              [garlic_bread\<lparr>i_is_available := Some False, i_updated_at := Some 200\<rparr>]\<rparr>)"
    by (simp add: update_menu_items_def update_target_def checked_row_def rls_using_simps
        rls_with_check_simps has_role_scenario ids set_menu_items_updated_at_def
        handle_updated_at_def scenario_tables assign_price_149 p)
  have q: "i_price (itemData garlic_bread_form (menu_items_defaults 31 200))
      = Some (Number 149)"
    "i_id (itemData garlic_bread_form (menu_items_defaults 31 200)) = 31"
    "i_category_id (itemData garlic_bread_form (menu_items_defaults 31 200)) = 20"
    "(itemData garlic_bread_form (menu_items_defaults 31 200))\<lparr>i_price := Some (Number 149)\<rparr>
       = itemData garlic_bread_form (menu_items_defaults 31 200)"
    by (simp_all add: itemData_def garlic_bread_form_def menu_items_defaults_def)
  have h4: "handleSubmit (Some 7) None garlic_bread_form 31 200 scenario_db
     = Inr (scenario_db\<lparr>menu_items :=
              [garlic_bread, itemData garlic_bread_form (menu_items_defaults 31 200)]\<rparr>)"
    by (simp add: handleSubmit_def insert_menu_items_def q assign_price_149 Let_def
        rls_with_check_simps has_role_scenario scenario_tables ids)
  note t = updated_at_is_now [where caller = "Some 7" and d = scenario_db and now = 200]
  have c1: "list_all2 (\<lambda>old new. r_updated_at new = Some 200 \<and> r_created_at new = r_created_at old)
     [pizza_palace] [pizza_palace\<lparr>r_updated_at := Some 200\<rparr>]"
    using t [THEN conjunct1, rule_format, OF h1] by simp
  have c2: "list_all2 (\<lambda>old new. c_updated_at new = Some 200 \<and> c_created_at new = c_created_at old)
     [starters] [starters\<lparr>c_name := ''Mains'', c_updated_at := Some 200\<rparr>]"
    using t [THEN conjunct2, THEN conjunct1, rule_format, OF h2] by simp
  have c3: "list_all2 (\<lambda>old new. i_updated_at new = Some 200 \<and> i_created_at new = i_created_at old)
     [garlic_bread] [garlic_bread\<lparr>i_is_available := Some False, i_updated_at := Some 200\<rparr>]"
    using t [THEN conjunct2, THEN conjunct2, THEN conjunct1, rule_format, OF h3] by simp
  have c4: "i_created_at (itemData garlic_bread_form (menu_items_defaults 31 200)) = Some 200"
    using t [THEN conjunct2, THEN conjunct2, THEN conjunct2, rule_format, OF h4]
    by (simp add: scenario_tables)
  from h1 h2 h3 h4 c1 c2 c3 c4 show ?thesis by blast
qed

section \<open>Cascading deletes\<close>

lemma on_delete_restaurants_tables:
  "restaurants (on_delete_restaurants gone d) = restaurants d"
  "menu_categories (on_delete_restaurants gone d) =
     filter (\<lambda>c. c_restaurant_id c \<notin> r_id ` set gone) (menu_categories d)"
  "menu_items (on_delete_restaurants gone d) =
     filter (\<lambda>i. i_category_id i \<notin>
                  c_id ` set (filter (\<lambda>c. c_restaurant_id c \<in> r_id ` set gone)
                               (menu_categories d)))
       (menu_items d)"
  "user_roles (on_delete_restaurants gone d) =
     filter (\<lambda>g. ur_restaurant_id g \<notin> Some ` r_id ` set gone) (user_roles d)"
  "auth_users (on_delete_restaurants gone d) = auth_users d"
  by (auto simp: on_delete_restaurants_def on_delete_menu_categories_def Let_def
      option.case_eq_if intro!: filter_cong)

lemma handleDelete_gone:
  assumes "caller \<noteq> None \<and> has_role d caller admin" and "rid \<in> r_id ` set (restaurants d)"
  shows "r_id ` set (filter (delete_target restaurants_policies d caller (\<lambda>r. r_id r = rid))
                       (restaurants d)) = {rid}"
  using assms by (auto simp: delete_target_def rls_using_restaurants)

lemma handleDelete_tables:
  assumes "caller \<noteq> None \<and> has_role d caller admin" and "rid \<in> r_id ` set (restaurants d)"
  shows "restaurants (handleDelete caller rid d) =
           filter (\<lambda>r. r_id r \<noteq> rid) (restaurants d)"
    and "menu_categories (handleDelete caller rid d) =
           filter (\<lambda>c. c_restaurant_id c \<noteq> rid) (menu_categories d)"
    and "menu_items (handleDelete caller rid d) =
           filter (\<lambda>i. i_category_id i \<notin>
                        c_id ` set (filter (\<lambda>c. c_restaurant_id c = rid) (menu_categories d)))
             (menu_items d)"
    and "user_roles (handleDelete caller rid d) =
           filter (\<lambda>g. ur_restaurant_id g \<noteq> Some rid) (user_roles d)"
    and "auth_users (handleDelete caller rid d) = auth_users d"
proof -
  note g = handleDelete_gone [OF assms]
  show "restaurants (handleDelete caller rid d) =
           filter (\<lambda>r. r_id r \<noteq> rid) (restaurants d)"
    using assms(1)
    by (auto simp: handleDelete_def delete_restaurants_def Let_def
        on_delete_restaurants_tables delete_target_def rls_using_restaurants
        intro!: filter_cong)
  show "menu_categories (handleDelete caller rid d) =
           filter (\<lambda>c. c_restaurant_id c \<noteq> rid) (menu_categories d)"
    unfolding handleDelete_def delete_restaurants_def Let_def on_delete_restaurants_tables g
    by simp
  show "menu_items (handleDelete caller rid d) =
           filter (\<lambda>i. i_category_id i \<notin>
                        c_id ` set (filter (\<lambda>c. c_restaurant_id c = rid) (menu_categories d)))
             (menu_items d)"
    unfolding handleDelete_def delete_restaurants_def Let_def on_delete_restaurants_tables g
    by simp
  show "user_roles (handleDelete caller rid d) =
           filter (\<lambda>g. ur_restaurant_id g \<noteq> Some rid) (user_roles d)"
    unfolding handleDelete_def delete_restaurants_def Let_def on_delete_restaurants_tables g
    by simp
  show "auth_users (handleDelete caller rid d) = auth_users d"
    by (simp add: handleDelete_def delete_restaurants_def Let_def
        on_delete_restaurants_tables)
qed

lemma handleDelete_integrity:
  assumes "caller \<noteq> None \<and> has_role d caller admin" and "rid \<in> r_id ` set (restaurants d)"
    and "referential_integrity d"
  shows "referential_integrity (handleDelete caller rid d)"
  unfolding referential_integrity_def handleDelete_tables [OF assms(1,2)]
proof (intro conjI ballI)
  fix c assume "c \<in> set (filter (\<lambda>c. c_restaurant_id c \<noteq> rid) (menu_categories d))"
  with assms(3) show "c_restaurant_id c \<in> r_id ` set (filter (\<lambda>r. r_id r \<noteq> rid) (restaurants d))"
    by (auto simp: referential_integrity_def)
next
  fix i assume i: "i \<in> set (filter (\<lambda>i. i_category_id i \<notin>
                        c_id ` set (filter (\<lambda>c. c_restaurant_id c = rid) (menu_categories d)))
             (menu_items d))"
  then have "i \<in> set (menu_items d)" by simp
  with assms(3) obtain c where c: "c \<in> set (menu_categories d)" "c_id c = i_category_id i"
    by (auto simp: referential_integrity_def)
  have "c_restaurant_id c \<noteq> rid"
  proof
    assume "c_restaurant_id c = rid"
    with c(1) have "c \<in> set (filter (\<lambda>c. c_restaurant_id c = rid) (menu_categories d))"
      by simp
    then have "c_id c \<in> c_id ` set (filter (\<lambda>c. c_restaurant_id c = rid) (menu_categories d))"
      by (rule imageI)
    with i c(2) show False by simp
  qed
  with c show "i_category_id i \<in> c_id ` set (filter (\<lambda>c. c_restaurant_id c \<noteq> rid) (menu_categories d))"
    by force
next
  fix g assume "g \<in> set (filter (\<lambda>g. ur_restaurant_id g \<noteq> Some rid) (user_roles d))"
  with assms(3) show "case ur_restaurant_id g of None \<Rightarrow> True
         | Some r \<Rightarrow> r \<in> r_id ` set (filter (\<lambda>r. r_id r \<noteq> rid) (restaurants d))"
    by (fastforce simp: referential_integrity_def split: option.splits)
qed

text \<open>
  Claim C6. When an admin deletes a restaurant, the one \<open>DELETE\<close> statement removes
  the restaurant, its N categories and the M items of those categories, and nothing
  else of the two tables: afterwards no category references the restaurant and no
  item references a deleted category. The step takes a store that satisfies the
  foreign keys to one that satisfies them, so no state with an orphaned category or
  item sits between two statements.
\<close>

theorem delete_restaurant_cascades:
  assumes "caller \<noteq> None \<and> has_role d caller admin"
    and "rid \<in> r_id ` set (restaurants d)"
  shows "(let d' = handleDelete caller rid d;
              N = filter (\<lambda>c. c_restaurant_id c = rid) (menu_categories d);
              M = filter (\<lambda>i. i_category_id i \<in> c_id ` set N) (menu_items d)
          in rid \<notin> r_id ` set (restaurants d') \<and>
             menu_categories d' = filter (\<lambda>c. c_restaurant_id c \<noteq> rid) (menu_categories d) \<and>
             menu_items d' = filter (\<lambda>i. i_category_id i \<notin> c_id ` set N) (menu_items d) \<and>
             (\<forall>c\<in>set (menu_categories d'). c_restaurant_id c \<noteq> rid) \<and>
             (\<forall>i\<in>set (menu_items d'). i_category_id i \<notin> c_id ` set N) \<and>
             length (menu_categories d') + length N = length (menu_categories d) \<and>
             length (menu_items d') + length M = length (menu_items d) \<and>
             (referential_integrity d \<longrightarrow> referential_integrity d'))"
proof -
  note t = handleDelete_tables [OF assms]
  have n: "length (filter (\<lambda>x. \<not> P x) xs) + length (filter P xs) = length xs"
    for P :: "'a \<Rightarrow> bool" and xs
    using sum_length_filter_compl [of P xs] by simp
  show ?thesis
    unfolding Let_def
  proof (intro conjI impI)
    show "rid \<notin> r_id ` set (restaurants (handleDelete caller rid d))"
      by (auto simp: t)
    show "length (menu_categories (handleDelete caller rid d)) +
          length (filter (\<lambda>c. c_restaurant_id c = rid) (menu_categories d)) =
          length (menu_categories d)"
      unfolding t by (rule n)
    show "length (menu_items (handleDelete caller rid d)) +
          length (filter (\<lambda>i. i_category_id i \<in>
                     c_id ` set (filter (\<lambda>c. c_restaurant_id c = rid) (menu_categories d)))
                   (menu_items d)) =
          length (menu_items d)"
      unfolding t by (rule n)
    assume "referential_integrity d"
    with assms show "referential_integrity (handleDelete caller rid d)"
      by (simp add: handleDelete_integrity)
  qed (simp_all add: t)
qed

text \<open>
  Claim C10. Deleting a restaurant also deletes every \<open>user_roles\<close> row whose
  \<open>restaurant_id\<close> references it: afterwards no grant scoped to the restaurant is
  left. The grants with another scope or with none stay, and so do the users.
\<close>

theorem delete_restaurant_drops_grants:
  assumes "caller \<noteq> None \<and> has_role d caller admin"
    and "rid \<in> r_id ` set (restaurants d)"
  shows "user_roles (handleDelete caller rid d) =
           filter (\<lambda>g. ur_restaurant_id g \<noteq> Some rid) (user_roles d) \<and>
         (\<forall>g\<in>set (user_roles (handleDelete caller rid d)). ur_restaurant_id g \<noteq> Some rid) \<and>
         auth_users (handleDelete caller rid d) = auth_users d"
  by (simp add: handleDelete_tables [OF assms])

lemma handleDelete_two_db:
  "Some 7 \<noteq> None \<and> has_role two_db (Some 7) admin"
  "10 \<in> r_id ` set (restaurants two_db)"
  "referential_integrity two_db"
  "handleDelete (Some 7) 10 two_db =
     \<lparr>restaurants = [curry_house], menu_categories = [mains], menu_items = [dal],
      user_roles = [admin_grant, manager_grant], auth_users = [7, 8]\<rparr>"
proof -
  have t: "restaurants two_db = [pizza_palace, curry_house]"
    "menu_categories two_db = [starters, mains]" "menu_items two_db = [garlic_bread, dal]"
    "user_roles two_db = [admin_grant, user_grant, manager_grant]" "auth_users two_db = [7, 8]"
    by (simp_all add: two_db_def)
  have s: "r_id pizza_palace = 10" "r_id curry_house = 11"
    "c_restaurant_id starters = 10" "c_id starters = 20"
    "c_restaurant_id mains = 11" "c_id mains = 21"
    "i_category_id garlic_bread = 20" "i_category_id dal = 21"
    "ur_restaurant_id admin_grant = None" "ur_restaurant_id user_grant = Some 10"
    "ur_restaurant_id manager_grant = Some 11"
    "ur_user_id admin_grant = 7" "ur_role admin_grant = admin"
    by (simp_all add: scenario_defs curry_house_def mains_def dal_def manager_grant_def)
  show a: "Some 7 \<noteq> None \<and> has_role two_db (Some 7) admin"
    by (simp add: has_role_iff t s)
  show r: "10 \<in> r_id ` set (restaurants two_db)"
    by (simp add: t s)
  show "referential_integrity two_db"
    by (simp add: referential_integrity_def t s)
  show "handleDelete (Some 7) 10 two_db =
     \<lparr>restaurants = [curry_house], menu_categories = [mains], menu_items = [dal],
      user_roles = [admin_grant, manager_grant], auth_users = [7, 8]\<rparr>"
    by (rule db.equality) (simp_all add: handleDelete_tables [OF a r] t s)
qed

theorem delete_restaurant_cascades_witness:
  "(Some 7 \<noteq> None \<and> has_role two_db (Some 7) admin) \<and>
   10 \<in> r_id ` set (restaurants two_db) \<and>
   referential_integrity two_db \<and>
   menu_categories two_db = [starters, mains] \<and>
   menu_items two_db = [garlic_bread, dal] \<and>
   menu_categories (handleDelete (Some 7) 10 two_db) = [mains] \<and>
   menu_items (handleDelete (Some 7) 10 two_db) = [dal] \<and>
   list_all (\<lambda>c. c_restaurant_id c \<noteq> 10)
     (menu_categories (handleDelete (Some 7) 10 two_db)) \<and>
   length (menu_items (handleDelete (Some 7) 10 two_db)) +
     length (filter (\<lambda>i. i_category_id i \<in>
                c_id ` set (filter (\<lambda>c. c_restaurant_id c = 10) (menu_categories two_db)))
           (menu_items two_db)) = length (menu_items two_db) \<and>
   referential_integrity (handleDelete (Some 7) 10 two_db)"
proof -
  note h = handleDelete_two_db
  note t = delete_restaurant_cascades [OF h(1) h(2), unfolded Let_def]
  have c: "menu_categories two_db = [starters, mains]" "menu_items two_db = [garlic_bread, dal]"
    by (simp_all add: two_db_def)
  have m: "menu_categories (handleDelete (Some 7) 10 two_db) = [mains]"
    "menu_items (handleDelete (Some 7) 10 two_db) = [dal]"
    by (simp_all add: h(4))
  from t h(3) have
    "list_all (\<lambda>c. c_restaurant_id c \<noteq> 10)
       (menu_categories (handleDelete (Some 7) 10 two_db))"
    "length (menu_items (handleDelete (Some 7) 10 two_db)) +
     length (filter (\<lambda>i. i_category_id i \<in>
                c_id ` set (filter (\<lambda>c. c_restaurant_id c = 10) (menu_categories two_db)))
           (menu_items two_db)) = length (menu_items two_db)"
    "referential_integrity (handleDelete (Some 7) 10 two_db)"
    unfolding list_all_iff by blast+
  with h(1-3) c m show ?thesis by blast
qed

theorem delete_restaurant_drops_grants_witness:
  "(Some 7 \<noteq> None \<and> has_role two_db (Some 7) admin) \<and>
   10 \<in> r_id ` set (restaurants two_db) \<and>
   user_roles two_db = [admin_grant, user_grant, manager_grant] \<and>
   ur_restaurant_id user_grant = Some 10 \<and>
   user_roles (handleDelete (Some 7) 10 two_db) = [admin_grant, manager_grant] \<and>
   list_all (\<lambda>g. ur_restaurant_id g \<noteq> Some 10)
     (user_roles (handleDelete (Some 7) 10 two_db))"
proof -
  note h = handleDelete_two_db
  note t = delete_restaurant_drops_grants [OF h(1) h(2), folded list_all_iff]
  have "user_roles two_db = [admin_grant, user_grant, manager_grant]"
    "ur_restaurant_id user_grant = Some 10"
    "user_roles (handleDelete (Some 7) 10 two_db) = [admin_grant, manager_grant]"
    by (simp add: two_db_def, simp add: user_grant_def, simp add: h(4))
  with h(1,2) t show ?thesis by blast
qed

section \<open>Role grants are not unique under a null scope\<close>

text \<open>
  Claim C7 says that no user holds the same role twice for the same scope, the null
  scope included. The \<open>UNIQUE\<close> constraint rejects a second grant of the same role for
  the same restaurant, but not a second global grant: user 7 already holds \<open>admin\<close>
  with a null scope, and the insert of another such row succeeds.
\<close>

theorem insert_user_roles_null_scope_duplicate:
  "insert_user_roles (Some 7) (admin_grant\<lparr>ur_id := 43\<rparr>) scenario_db
     = Inr (scenario_db\<lparr>user_roles := [admin_grant, user_grant, admin_grant\<lparr>ur_id := 43\<rparr>]\<rparr>) \<and>
   ur_user_id (admin_grant\<lparr>ur_id := 43\<rparr>) = ur_user_id admin_grant \<and>
   ur_role (admin_grant\<lparr>ur_id := 43\<rparr>) = ur_role admin_grant \<and>
   ur_restaurant_id (admin_grant\<lparr>ur_id := 43\<rparr>) = ur_restaurant_id admin_grant \<and>
   insert_user_roles (Some 7) (user_grant\<lparr>ur_id := 44\<rparr>) scenario_db = Inl unique_violation"
proof -
  have s: "ur_id admin_grant = 40" "ur_id user_grant = 41"
    "ur_user_id admin_grant = 7" "ur_user_id user_grant = 8"
    "ur_role admin_grant = admin" "ur_role user_grant = user"
    "ur_restaurant_id admin_grant = None" "ur_restaurant_id user_grant = Some 10"
    "auth_users scenario_db = [7, 8]" "r_id pizza_palace = 10"
    by (simp_all add: scenario_defs)
  show ?thesis
    by (simp add: insert_user_roles_def rls_with_check_simps has_role_scenario
        user_roles_key_conflict_def sql_true_def sql_and_def sql_eq_def scenario_tables s)
qed

theorem insert_user_roles_null_scope_duplicate_witness:
  "\<exists>d'. insert_user_roles (Some 7) (admin_grant\<lparr>ur_id := 43\<rparr>) scenario_db = Inr d' \<and>
     length (filter (\<lambda>g. ur_user_id g = 7 \<and> ur_role g = admin \<and> ur_restaurant_id g = None)
               (user_roles d')) = 2"
  using insert_user_roles_null_scope_duplicate
  by (simp add: admin_grant_def user_grant_def)

section \<open>Prices\<close>

lemma numeric_10_2_Number:
  assumes "numeric_10_2 (Number x) = Inr v"
  shows "\<exists>y. v = Number y \<and> is_numeric_10_2 y \<and> \<bar>y - x\<bar> \<le> 1 / 200"
proof -
  define n where "n = (if 0 \<le> x then \<lfloor>x * 100 + 1 / 2\<rfloor> else - \<lfloor>- x * 100 + 1 / 2\<rfloor>)"
  from assms have b: "\<bar>n\<bar> < 10 ^ 10" and v: "v = Number (of_int n / 100)"
    by (auto simp: numeric_10_2_def Let_def n_def split: if_splits)
  define y :: rat where "y = of_int n / 100"
  have yn: "y * 100 = of_int n" by (simp add: y_def)
  have "\<bar>of_int n :: rat\<bar> < of_int (10 ^ 10)"
    using b by (simp only: of_int_abs [symmetric] of_int_less_iff)
  then have "\<bar>y\<bar> < 10 ^ 8" by (simp add: y_def)
  with yn have i: "is_numeric_10_2 y" by (simp add: is_numeric_10_2_def)
  have "\<bar>of_int n - x * 100\<bar> \<le> 1 / 2"
  proof (cases "0 \<le> x")
    case True
    then have "n = \<lfloor>x * 100 + 1 / 2\<rfloor>" by (simp add: n_def)
    then have "of_int n \<le> x * 100 + 1 / 2" "x * 100 + 1 / 2 < of_int n + 1"
      by linarith+
    then show ?thesis by linarith
  next
    case False
    then have "- n = \<lfloor>- x * 100 + 1 / 2\<rfloor>" by (simp add: n_def)
    then have "of_int (- n) \<le> - x * 100 + 1 / 2" "- x * 100 + 1 / 2 < of_int (- n) + 1"
      by linarith+
    then have "x * 100 - 1 / 2 \<le> of_int n" "of_int n \<le> x * 100 + 1 / 2"
      by simp_all
    then show ?thesis by linarith
  qed
  then have "\<bar>y * 100 - x * 100\<bar> \<le> 1 / 2" by (simp add: yn)
  then have "\<bar>y - x\<bar> \<le> 1 / 200" by linarith
  moreover have "v = Number y" by (simp only: v y_def)
  ultimately show ?thesis using i by blast
qed

lemma numeric_10_2_result:
  assumes "numeric_10_2 v = Inr w"
  shows "is_stored_price (Some w)"
proof (cases v)
  case (Number x)
  with numeric_10_2_Number assms show ?thesis
    by (fastforce simp: is_stored_price_def)
qed (use assms in \<open>auto simp: numeric_10_2_def is_stored_price_def\<close>)

lemma assign_price_result:
  "assign_price v = Inr (Some w) \<Longrightarrow> is_stored_price (Some w)"
  by (auto simp: assign_price_def split: option.splits sum.splits dest: numeric_10_2_result)

lemma insert_menu_items_Inr:
  assumes "insert_menu_items caller new d = Inr d'"
  shows "\<exists>p. assign_price (i_price new) = Inr (Some p) \<and>
             menu_items d' = menu_items d @ [new\<lparr>i_price := Some p\<rparr>]"
  using assms
  by (auto simp: insert_menu_items_def Let_def split: sum.splits if_splits)

lemma assign_price_form:
  assumes "assign_price (map_option Number fp) = Inr (Some v)"
  shows "\<exists>p q. fp = Some p \<and> numeric_10_2 (Number p) = Inr (Number q) \<and> v = Number q"
proof -
  from assms obtain p where p: "fp = Some p" "numeric_10_2 (Number p) = Inr v"
    by (cases fp) (auto simp: assign_price_def split: sum.splits)
  from numeric_10_2_Number [OF p(2)] obtain q where "v = Number q" by blast
  with p show ?thesis by simp
qed

lemma numeric_10_2_minus_1: "numeric_10_2 (Number (- 1)) = Inr (Number (- 1))"
  by (rule numeric_10_2_exact) (simp_all add: floor_eq_iff)

lemma assign_price_NaN: "assign_price (Some NaN) = Inr (Some NaN)"
  by (simp add: assign_price_def numeric_10_2_def)

text \<open>
  Claim C8, as stated, fails: the column is \<open>DECIMAL(10, 2) NOT NULL\<close> with no \<open>CHECK\<close>,
  so the store accepts an admin's insert, and update, of a negative price, and
  \<open>handleSubmit\<close> sends a negative price as it does any other. The store also accepts
  \<open>NaN\<close>, which is no decimal at all.
\<close>

theorem negative_price_counterexample:
  "insert_menu_items (Some 7) (garlic_bread\<lparr>i_id := 32, i_price := Some (Number (- 1))\<rparr>)
       scenario_db
     = Inr (scenario_db\<lparr>menu_items :=
              [garlic_bread, garlic_bread\<lparr>i_id := 32, i_price := Some (Number (- 1))\<rparr>]\<rparr>) \<and>
   update_menu_items (Some 7) (\<lambda>i. i_id i = 30) (\<lambda>i. i\<lparr>i_price := Some (Number (- 1))\<rparr>)
       200 scenario_db
     = Inr (scenario_db\<lparr>menu_items :=
              [garlic_bread\<lparr>i_price := Some (Number (- 1)), i_updated_at := Some 200\<rparr>]\<rparr>) \<and>
   handleSubmit (Some 7) (Some 30) (garlic_bread_form\<lparr>f_price := Some (- 1)\<rparr>) 0 200
       scenario_db
     = Inr (scenario_db\<lparr>menu_items :=
              [garlic_bread\<lparr>i_price := Some (Number (- 1)), i_updated_at := Some 200\<rparr>]\<rparr>) \<and>
   insert_menu_items (Some 7) (garlic_bread\<lparr>i_id := 33, i_price := Some NaN\<rparr>) scenario_db
     = Inr (scenario_db\<lparr>menu_items :=
              [garlic_bread, garlic_bread\<lparr>i_id := 33, i_price := Some NaN\<rparr>]\<rparr>)"
proof -
  have s: "i_id garlic_bread = 30" "i_category_id garlic_bread = 20" "c_id starters = 20"
    by (simp_all add: scenario_rows)
  have m: "assign_price (Some (Number (- 1))) = Inr (Some (Number (- 1)))"
    by (rule assign_price_Number) (rule numeric_10_2_minus_1)
  have u: "itemData (garlic_bread_form\<lparr>f_price := Some (- 1)\<rparr>) garlic_bread
      = garlic_bread\<lparr>i_price := Some (Number (- 1))\<rparr>"
    by (simp add: scenario_rows)
  show ?thesis
    by (simp add: insert_menu_items_def update_menu_items_def handleSubmit_def u
        update_target_def checked_row_def rls_using_simps rls_with_check_simps
        has_role_scenario m assign_price_NaN set_menu_items_updated_at_def
        handle_updated_at_def scenario_tables s Let_def)
qed

text \<open>
  Claim C8, amended. After an insert or update the store holds as a price either
  \<open>NaN\<close> or a decimal with two decimals below \<open>10^8\<close> in magnitude: it rounds a
  submitted number to the nearest hundredth, refuses one that does not fit, refuses
  an infinity and \<open>null\<close>, and takes \<open>NaN\<close> as it is. It does not check the sign.
  \<open>handleSubmit\<close> checks nothing either: it sends the number parsed from the price
  field, a negative one included, so a price stored through the form is a two-decimal
  number, and a field that parses to no number is refused. A number with at most two
  decimals that fits is stored unchanged, and a public fetch returns item rows as
  they are stored, so the item submitted with price 149.00 comes back with price
  exactly 149.00.
\<close>

theorem prices_two_decimals:
  "(insert_menu_items caller new d = Inr dn \<longrightarrow>
      (\<exists>row. menu_items dn = menu_items d @ [row] \<and>
         assign_price (i_price new) = Inr (i_price row) \<and> is_stored_price (i_price row))) \<and>
   (update_menu_items caller wi si now d = Inr du \<longrightarrow>
      list_all2 (\<lambda>old new.
          if update_target menu_items_policies d caller wi old
          then assign_price (i_price (si old)) = Inr (i_price new) \<and>
               is_stored_price (i_price new)
          else new = old)
        (menu_items d) (menu_items du)) \<and>
   (numeric_10_2 (Number x) = Inr v \<longrightarrow>
      (\<exists>y. v = Number y \<and> is_numeric_10_2 y \<and> \<bar>y - x\<bar> \<le> 1 / 200)) \<and>
   (is_numeric_10_2 p \<longrightarrow> numeric_10_2 (Number p) = Inr (Number p)) \<and>
   numeric_10_2 NaN = Inr NaN \<and>
   numeric_10_2 Infinity = Inl numeric_value_out_of_range \<and>
   numeric_10_2 Minus_Infinity = Inl numeric_value_out_of_range \<and>
   (handleSubmit caller None formData fresh now d = Inr df \<longrightarrow>
      (\<exists>row p q. menu_items df = menu_items d @ [row] \<and> f_price formData = Some p \<and>
         numeric_10_2 (Number p) = Inr (Number q) \<and> i_price row = Some (Number q))) \<and>
   (handleSubmit caller (Some item_id) formData fresh now d = Inr de \<longrightarrow>
      list_all2 (\<lambda>old new.
          if update_target menu_items_policies d caller (\<lambda>i. i_id i = item_id) old
          then \<exists>p q. f_price formData = Some p \<and>
                 numeric_10_2 (Number p) = Inr (Number q) \<and> i_price new = Some (Number q)
          else new = old)
        (menu_items d) (menu_items de)) \<and>
   (f_price formData = None \<longrightarrow>
      handleSubmit caller None formData fresh now d =
        Inl (if caller \<noteq> None \<and> has_role d caller admin then not_null_violation
             else row_security_violation)) \<and>
   (\<forall>i\<in>set (menuItems (fetchRestaurantData reader slug d initial_page)).
      i \<in> set (menu_items d)) \<and>
   (\<forall>f. fetch_restaurant reader slug d = Inr f \<longrightarrow>
      set (menuItems (fetchRestaurantData reader slug d page)) \<subseteq> set (menu_items d)) \<and>
   handleSubmit (Some 7) None garlic_bread_form 30 100 (scenario_db\<lparr>menu_items := []\<rparr>)
     = Inr scenario_db \<and>
   map i_price (menuItems (fetchRestaurantData None ''pizza-palace'' scenario_db initial_page))
     = [Some (Number 149)]"
proof (intro conjI impI ballI allI)
  assume "insert_menu_items caller new d = Inr dn"
  from insert_menu_items_Inr [OF this] obtain p where
    p: "assign_price (i_price new) = Inr (Some p)"
      "menu_items dn = menu_items d @ [new\<lparr>i_price := Some p\<rparr>]"
    by blast
  with assign_price_result [OF p(1)]
  show "\<exists>row. menu_items dn = menu_items d @ [row] \<and>
         assign_price (i_price new) = Inr (i_price row) \<and> is_stored_price (i_price row)"
    by simp
next
  assume "update_menu_items caller wi si now d = Inr du"
  from update_menu_items_rows [OF this]
  show "list_all2 (\<lambda>old new.
          if update_target menu_items_policies d caller wi old
          then assign_price (i_price (si old)) = Inr (i_price new) \<and>
               is_stored_price (i_price new)
          else new = old)
        (menu_items d) (menu_items du)"
    by (rule list_all2_mono) (auto split: if_splits dest: assign_price_result)
next
  assume "numeric_10_2 (Number x) = Inr v"
  then show "\<exists>y. v = Number y \<and> is_numeric_10_2 y \<and> \<bar>y - x\<bar> \<le> 1 / 200"
    by (rule numeric_10_2_Number)
next
  assume "is_numeric_10_2 p"
  then show "numeric_10_2 (Number p) = Inr (Number p)"
    by (simp add: is_numeric_10_2_def numeric_10_2_exact)
next
  show "numeric_10_2 NaN = Inr NaN" "numeric_10_2 Infinity = Inl numeric_value_out_of_range"
    "numeric_10_2 Minus_Infinity = Inl numeric_value_out_of_range"
    by (simp_all add: numeric_10_2_def)
next
  assume "handleSubmit caller None formData fresh now d = Inr df"
  then have "insert_menu_items caller (itemData formData (menu_items_defaults fresh now)) d
      = Inr df"
    by (simp add: handleSubmit_def)
  from insert_menu_items_Inr [OF this] obtain v where
    v: "assign_price (map_option Number (f_price formData)) = Inr (Some v)"
      "menu_items df = menu_items d @
         [(itemData formData (menu_items_defaults fresh now))\<lparr>i_price := Some v\<rparr>]"
    by (auto simp: itemData_def)
  from assign_price_form [OF v(1)] obtain p q where
    "f_price formData = Some p" "numeric_10_2 (Number p) = Inr (Number q)" "v = Number q"
    by blast
  with v(2) show "\<exists>row p q. menu_items df = menu_items d @ [row] \<and> f_price formData = Some p \<and>
         numeric_10_2 (Number p) = Inr (Number q) \<and> i_price row = Some (Number q)"
    by simp
next
  assume "handleSubmit caller (Some item_id) formData fresh now d = Inr de"
  then have "update_menu_items caller (\<lambda>i. i_id i = item_id) (itemData formData) now d = Inr de"
    by (simp add: handleSubmit_def)
  note r = update_menu_items_rows [OF this]
  have ip: "i_price (itemData formData old) = map_option Number (f_price formData)" for old
    by (simp add: itemData_def)
  show "list_all2 (\<lambda>old new.
          if update_target menu_items_policies d caller (\<lambda>i. i_id i = item_id) old
          then \<exists>p q. f_price formData = Some p \<and>
                 numeric_10_2 (Number p) = Inr (Number q) \<and> i_price new = Some (Number q)
          else new = old)
        (menu_items d) (menu_items de)"
    using r
    by (rule list_all2_mono) (auto split: if_splits simp: ip dest!: assign_price_form)
next
  assume "f_price formData = None"
  then show "handleSubmit caller None formData fresh now d =
        Inl (if caller \<noteq> None \<and> has_role d caller admin then not_null_violation
             else row_security_violation)"
    by (simp add: handleSubmit_def insert_menu_items_def itemData_def assign_price_def
        rls_with_check_simps Let_def)
next
  fix i assume "i \<in> set (menuItems (fetchRestaurantData reader slug d initial_page))"
  then show "i \<in> set (menu_items d)"
    by (simp add: fetchRestaurantData_items_available)
next
  fix f assume "fetch_restaurant reader slug d = Inr f"
  from fetchRestaurantData_success(3) [OF this, of page]
  show "set (menuItems (fetchRestaurantData reader slug d page)) \<subseteq> set (menu_items d)"
    by blast
next
  have a: "has_role (scenario_db\<lparr>menu_items := []\<rparr>) (Some 7) admin"
    by (simp add: has_role_iff scenario_tables admin_grant_def)
  have g: "itemData garlic_bread_form (menu_items_defaults 30 100) = garlic_bread"
    by (simp add: garlic_bread_def)
  have s: "i_id garlic_bread = 30" "i_category_id garlic_bread = 20" "c_id starters = 20"
    "i_price garlic_bread = Some (Number 149)"
    by (simp_all add: scenario_rows)
  have gp: "garlic_bread\<lparr>i_price := Some (Number 149)\<rparr> = garlic_bread"
    using s(4) by simp
  show "handleSubmit (Some 7) None garlic_bread_form 30 100 (scenario_db\<lparr>menu_items := []\<rparr>)
     = Inr scenario_db"
    by (simp add: handleSubmit_def insert_menu_items_def g s gp assign_price_149 Let_def
        rls_with_check_simps a scenario_tables)
  show "map i_price (menuItems (fetchRestaurantData None ''pizza-palace'' scenario_db
          initial_page)) = [Some (Number 149)]"
    by (simp add: fetch_scenario s)
qed

theorem prices_two_decimals_witness:
  "insert_menu_items (Some 7)
       (garlic_bread\<lparr>i_id := 32, i_price := Some (Number (2999 / 1000))\<rparr>) scenario_db
     = Inr (scenario_db\<lparr>menu_items :=
              [garlic_bread, garlic_bread\<lparr>i_id := 32, i_price := Some (Number 3)\<rparr>]\<rparr>) \<and>
   is_stored_price (Some (Number 3)) \<and>
   update_menu_items (Some 7) (\<lambda>i. i_id i = 30)
       (\<lambda>i. i\<lparr>i_price := Some (Number (1005 / 1000))\<rparr>) 200 scenario_db
     = Inr (scenario_db\<lparr>menu_items :=
              [garlic_bread\<lparr>i_price := Some (Number (101 / 100)),
                 i_updated_at := Some 200\<rparr>]\<rparr>) \<and>
   is_stored_price (Some (Number (101 / 100))) \<and>
   numeric_10_2 (Number (2999 / 1000)) = Inr (Number 3) \<and>
   \<bar>3 - 2999 / 1000 :: rat\<bar> \<le> 1 / 200 \<and>
   is_numeric_10_2 149 \<and>
   numeric_10_2 (Number 149) = Inr (Number 149) \<and>
   handleSubmit (Some 7) None garlic_bread_form 30 100 (scenario_db\<lparr>menu_items := []\<rparr>)
     = Inr scenario_db \<and>
   f_price garlic_bread_form = Some 149 \<and>
   i_price garlic_bread = Some (Number 149) \<and>
   handleSubmit (Some 7) (Some 30) (garlic_bread_form\<lparr>f_price := Some 159\<rparr>) 0 200
       scenario_db
     = Inr (scenario_db\<lparr>menu_items :=
              [garlic_bread\<lparr>i_price := Some (Number 159), i_updated_at := Some 200\<rparr>]\<rparr>) \<and>
   f_price (garlic_bread_form\<lparr>f_price := None\<rparr>) = None \<and>
   handleSubmit (Some 7) None (garlic_bread_form\<lparr>f_price := None\<rparr>) 31 200 scenario_db
     = Inl not_null_violation \<and>
   garlic_bread \<in>
     set (menuItems (fetchRestaurantData None ''pizza-palace'' scenario_db initial_page)) \<and>
   garlic_bread \<in> set (menu_items scenario_db) \<and>
   fetch_restaurant None ''pizza-palace'' scenario_db = Inr pizza_palace \<and>
   set (menuItems (fetchRestaurantData None ''pizza-palace'' scenario_db curry_page))
     \<subseteq> set (menu_items scenario_db)"
proof -
  have s: "i_id garlic_bread = 30" "i_category_id garlic_bread = 20" "c_id starters = 20"
    "i_price garlic_bread = Some (Number 149)" "f_price garlic_bread_form = Some 149"
    by (simp_all add: scenario_rows)
  have n: "numeric_10_2 (Number (2999 / 1000)) = Inr (Number 3)"
    "numeric_10_2 (Number (201 / 200)) = Inr (Number (101 / 100))"
    by (simp_all add: numeric_10_2_def Let_def floor_eq_iff)
  have n': "numeric_10_2 (Number 159) = Inr (Number 159)"
    by (rule numeric_10_2_exact) (simp_all add: floor_eq_iff)
  note an = n [THEN assign_price_Number] n' [THEN assign_price_Number]
  have v: "is_numeric_10_2 149"
    by (simp add: is_numeric_10_2_def floor_eq_iff)
  have h1: "insert_menu_items (Some 7)
       (garlic_bread\<lparr>i_id := 32, i_price := Some (Number (2999 / 1000))\<rparr>) scenario_db
     = Inr (scenario_db\<lparr>menu_items :=
              [garlic_bread, garlic_bread\<lparr>i_id := 32, i_price := Some (Number 3)\<rparr>]\<rparr>)"
    by (simp add: insert_menu_items_def rls_with_check_simps has_role_scenario an
        scenario_tables s Let_def)
  have h2: "update_menu_items (Some 7) (\<lambda>i. i_id i = 30)
       (\<lambda>i. i\<lparr>i_price := Some (Number (1005 / 1000))\<rparr>) 200 scenario_db
     = Inr (scenario_db\<lparr>menu_items :=
              [garlic_bread\<lparr>i_price := Some (Number (101 / 100)),
                 i_updated_at := Some 200\<rparr>]\<rparr>)"
    by (simp add: update_menu_items_def update_target_def checked_row_def rls_using_simps
        rls_with_check_simps has_role_scenario an set_menu_items_updated_at_def
        handle_updated_at_def scenario_tables s)
  have u: "itemData (garlic_bread_form\<lparr>f_price := Some 159\<rparr>) garlic_bread
      = garlic_bread\<lparr>i_price := Some (Number 159)\<rparr>"
    by (simp add: scenario_rows)
  have h6: "handleSubmit (Some 7) (Some 30) (garlic_bread_form\<lparr>f_price := Some 159\<rparr>) 0 200
       scenario_db
     = Inr (scenario_db\<lparr>menu_items :=
              [garlic_bread\<lparr>i_price := Some (Number 159), i_updated_at := Some 200\<rparr>]\<rparr>)"
    by (simp add: handleSubmit_def update_menu_items_def update_target_def checked_row_def
        rls_using_simps rls_with_check_simps has_role_scenario u an
        set_menu_items_updated_at_def handle_updated_at_def scenario_tables s)
  have h7: "f_price (garlic_bread_form\<lparr>f_price := None\<rparr>) = None" by simp
  have f: "garlic_bread \<in>
      set (menuItems (fetchRestaurantData None ''pizza-palace'' scenario_db initial_page))"
    by (simp add: fetch_scenario)
  note q = fetch_restaurant_scenario
  note t = prices_two_decimals [where caller = "Some 7" and d = scenario_db and now = 200
      and reader = None and slug = "''pizza-palace''" and page = curry_page
      and x = "2999 / 1000" and p = 149 and item_id = 30]
  have c1: "is_stored_price (Some (Number 3))"
    using t [THEN conjunct1, rule_format, OF h1] by (simp add: scenario_tables)
  have c2: "is_stored_price (Some (Number (101 / 100)))"
    using t [THEN conjunct2, THEN conjunct1, rule_format, OF h2]
    by (simp add: scenario_tables update_target_def rls_using_simps has_role_scenario s)
  note r = t [THEN conjunct2, THEN conjunct2]
  have c3: "\<bar>3 - 2999 / 1000 :: rat\<bar> \<le> 1 / 200"
    using r [THEN conjunct1, rule_format, OF n(1)] by simp
  have c4: "numeric_10_2 (Number 149) = Inr (Number 149)"
    using r [THEN conjunct2, THEN conjunct1, rule_format, OF v] .
  note r = r [THEN conjunct2, THEN conjunct2, THEN conjunct2, THEN conjunct2, THEN conjunct2]
  note r = r [THEN conjunct2, THEN conjunct2]
  have c7: "handleSubmit (Some 7) None (garlic_bread_form\<lparr>f_price := None\<rparr>) 31 200 scenario_db
     = Inl not_null_violation"
    using prices_two_decimals [where caller = "Some 7" and d = scenario_db and now = 200
        and formData = "garlic_bread_form\<lparr>f_price := None\<rparr>" and fresh = 31] h7
    by (simp add: has_role_scenario)
  note r = r [THEN conjunct2]
  have c8: "garlic_bread \<in> set (menu_items scenario_db)"
    using r [THEN conjunct1] f by blast
  have c9: "set (menuItems (fetchRestaurantData None ''pizza-palace'' scenario_db curry_page))
     \<subseteq> set (menu_items scenario_db)"
    using r [THEN conjunct2, THEN conjunct1] q by blast
  have h5: "handleSubmit (Some 7) None garlic_bread_form 30 100 (scenario_db\<lparr>menu_items := []\<rparr>)
     = Inr scenario_db"
    by (rule r [THEN conjunct2, THEN conjunct2, THEN conjunct1])
  have c5: "\<exists>row p q. menu_items scenario_db = menu_items (scenario_db\<lparr>menu_items := []\<rparr>) @ [row] \<and>
      f_price garlic_bread_form = Some p \<and>
      numeric_10_2 (Number p) = Inr (Number q) \<and> i_price row = Some (Number q)"
    using prices_two_decimals [where caller = "Some 7" and d = "scenario_db\<lparr>menu_items := []\<rparr>"
        and formData = garlic_bread_form and fresh = 30 and now = 100 and df = scenario_db]
      h5 by blast
  have c6: "list_all2 (\<lambda>old new.
          if update_target menu_items_policies scenario_db (Some 7) (\<lambda>i. i_id i = 30) old
          then \<exists>p q. f_price (garlic_bread_form\<lparr>f_price := Some 159\<rparr>) = Some p \<and>
                 numeric_10_2 (Number p) = Inr (Number q) \<and> i_price new = Some (Number q)
          else new = old)
        (menu_items scenario_db)
        (menu_items (scenario_db\<lparr>menu_items :=
              [garlic_bread\<lparr>i_price := Some (Number 159), i_updated_at := Some 200\<rparr>]\<rparr>))"
    using prices_two_decimals [where caller = "Some 7" and d = scenario_db and now = 200
        and item_id = 30 and formData = "garlic_bread_form\<lparr>f_price := Some 159\<rparr>"] h6
    by blast
  from h1 c1 h2 c2 n(1) c3 v c4 h5 s(5) s(4) h6 h7 c7 f c8 q c9 c5 c6
  show ?thesis by blast
qed

end
